theory Spec2Isabelle
  imports Complex_Main "HOL-Library.AList"
begin

section \<open>Message model (package mcp)\<close>

text \<open>
  A Go value of type \<open>any\<close> that came out of \<open>encoding/json\<close> is \<open>nil\<close>, a bool, a
  \<open>float64\<close>, a string, a slice or a \<open>map[string]any\<close>. Numbers are never computed
  with by the code below, only stored and compared, so they are kept as rationals. A Go
  map is an association list read with \<open>map_of\<close>.
\<close>

datatype json =
    JNull
  | JBool bool
  | JNum rat
  | JStr string
  | JArr "json list"
  | JObj "(string \<times> json) list"

definition ProtocolVersion :: string where
  "ProtocolVersion = ''2025-03-26''"

definition JSONRPCVersion :: string where
  "JSONRPCVersion = ''2.0''"

definition ErrorCodeParseError :: int where
  "ErrorCodeParseError = - 32700"

definition ErrorCodeInvalidRequest :: int where
  "ErrorCodeInvalidRequest = - 32600"

definition ErrorCodeMethodNotFound :: int where
  "ErrorCodeMethodNotFound = - 32601"

definition ErrorCodeInvalidParams :: int where
  "ErrorCodeInvalidParams = - 32602"

definition ErrorCodeInternalError :: int where
  "ErrorCodeInternalError = - 32603"

record ServerInfo =
  Name :: string
  Version :: string

record InitializeResponse =
  initProtocolVersion :: string
  Capabilities :: json
  initServerInfo :: ServerInfo

text \<open>\<open>ID\<close> and \<open>Params\<close> are \<open>any\<close>; \<open>JNull\<close> is Go's \<open>nil\<close> (JSON null or no such key).\<close>

record Request =
  JSONRPC :: string
  Method :: string
  ID :: json
  Params :: json

record ErrorResponse =
  Code :: int
  Message :: string
  Data :: json

text \<open>
  What the dispatcher puts into \<open>Response.Result\<close>. The type \<open>'v\<close> stands for the
  values the handlers return (\<open>Tool\<close>, \<open>ToolResponse\<close>, \<open>Resource\<close>, ...), which the
  dispatcher passes on without looking inside. \<open>Keyed k vs\<close> is the one-entry map
  \<open>map[string][]T{k: vs}\<close>, \<open>EmptyObject\<close> is \<open>map[string]any{}\<close>.
\<close>

datatype 'v result =
    InitializeResult InitializeResponse
  | Keyed string "'v list"
  | Verbatim 'v
  | EmptyObject

text \<open>\<open>Result\<close> is \<open>None\<close> for a nil interface, \<open>Error\<close> is \<open>None\<close> for a nil pointer.\<close>

record 'v Response =
  respJSONRPC :: string
  respID :: json
  Result :: "'v result option"
  Error :: "ErrorResponse option"

record ToolCallParams =
  toolName :: string
  toolArguments :: "(string \<times> json) list"

record ResourceParams =
  URI :: string

record PromptParams =
  promptName :: string
  promptArguments :: "(string \<times> json) list"

text \<open>
  The handler interfaces. A handler is code of the embedding application: it may fail
  (\<open>Inl\<close> carries \<open>err.Error()\<close>) and it may have effects, so every method threads a
  handler state \<open>'h\<close>.
\<close>

record ('v, 'h) ToolHandler =
  ListTools :: "'h \<Rightarrow> (string + 'v list) \<times> 'h"
  CallTool :: "ToolCallParams \<Rightarrow> 'h \<Rightarrow> (string + 'v) \<times> 'h"

record ('v, 'h) ResourceHandler =
  ListResources :: "'h \<Rightarrow> (string + 'v list) \<times> 'h"
  ReadResource :: "ResourceParams \<Rightarrow> 'h \<Rightarrow> (string + 'v) \<times> 'h"
  ListResourceTemplates :: "'h \<Rightarrow> (string + 'v list) \<times> 'h"

record ('v, 'h) PromptHandler =
  ListPrompts :: "'h \<Rightarrow> (string + 'v list) \<times> 'h"
  GetPrompt :: "PromptParams \<Rightarrow> 'h \<Rightarrow> (string + 'v) \<times> 'h"

text \<open>
  The \<open>ResponseSender\<close> interface: two methods, each returning an error (\<open>None\<close> is
  \<open>nil\<close>) and the new state \<open>'s\<close> of whatever the sender writes to.
\<close>

record ('v, 's) ResponseSender =
  SendResponse :: "'v Response \<Rightarrow> 's \<Rightarrow> string option \<times> 's"
  SendError :: "json \<Rightarrow> int \<Rightarrow> string \<Rightarrow> json \<Rightarrow> 's \<Rightarrow> string option \<times> 's"

text \<open>What \<open>ctx.Value(mcp.ResponseSenderKey)\<close> can hold.\<close>

datatype ('v, 's) ctx_value =
    NoSender
  | NotASender
  | Sender "('v, 's) ResponseSender"


section \<open>Dispatcher (package server)\<close>

record ('v, 'h) Server =
  toolHandler :: "('v, 'h) ToolHandler"
  resourceHandler :: "('v, 'h) ResourceHandler"
  promptHandler :: "('v, 'h) PromptHandler"
  serverInfo :: ServerInfo

definition Initialize :: "('v, 'h) Server \<Rightarrow> string + InitializeResponse" where
  "Initialize srv = Inr \<lparr>
     initProtocolVersion = ProtocolVersion,
     Capabilities = JObj [
       (''tools'', JObj [(''listChanged'', JBool True)]),
       (''resources'', JObj [(''listChanged'', JBool True), (''templates'', JBool True)]),
       (''prompts'', JObj [(''listChanged'', JBool True)]),
       (''elicitation'', JObj [])],
     initServerInfo = serverInfo srv \<rparr>"

definition sendResponseDirect ::
  "('v, 's) ctx_value \<Rightarrow> 'v Response \<Rightarrow> 's \<Rightarrow> string option \<times> 's" where
  "sendResponseDirect ctx response s =
     (case ctx of
        NoSender \<Rightarrow> (Some ''missing response sender in context'', s)
      | NotASender \<Rightarrow> (Some ''invalid response sender type in context'', s)
      | Sender rs \<Rightarrow> SendResponse rs response s)"

definition sendResponse ::
  "('v, 's) ctx_value \<Rightarrow> json \<Rightarrow> 'v result \<Rightarrow> 's \<Rightarrow> string option \<times> 's" where
  "sendResponse ctx id' res s =
     sendResponseDirect ctx
       \<lparr> respJSONRPC = JSONRPCVersion, respID = id', Result = Some res, Error = None \<rparr> s"

definition sendError ::
  "('v, 's) ctx_value \<Rightarrow> json \<Rightarrow> int \<Rightarrow> string \<Rightarrow> json \<Rightarrow> 's \<Rightarrow> string option \<times> 's" where
  "sendError ctx id' code message data' s =
     (case ctx of
        NoSender \<Rightarrow> (Some ''missing response sender in context'', s)
      | NotASender \<Rightarrow> (Some ''invalid response sender type in context'', s)
      | Sender rs \<Rightarrow> SendError rs id' code message data' s)"

subsection \<open>Parameter extraction\<close>

definition parseToolCallParams :: "json \<Rightarrow> string + ToolCallParams" where
  "parseToolCallParams params =
     (case params of
        JNull \<Rightarrow> Inl ''params cannot be nil''
      | JObj paramsMap \<Rightarrow>
          (case map_of paramsMap ''name'' of
             Some (JStr name) \<Rightarrow>
               Inr \<lparr> toolName = name,
                     toolArguments =
                       (case map_of paramsMap ''arguments'' of
                          Some (JObj argsMap) \<Rightarrow> argsMap
                        | _ \<Rightarrow> []) \<rparr>
           | _ \<Rightarrow> Inl ''name parameter is required and must be a string'')
      | _ \<Rightarrow> Inl ''params must be an object'')"

definition parseResourceParams :: "json \<Rightarrow> string + ResourceParams" where
  "parseResourceParams params =
     (case params of
        JNull \<Rightarrow> Inl ''params cannot be nil''
      | JObj paramsMap \<Rightarrow>
          (case map_of paramsMap ''uri'' of
             Some (JStr uri) \<Rightarrow> Inr \<lparr> URI = uri \<rparr>
           | _ \<Rightarrow> Inl ''uri parameter is required and must be a string'')
      | _ \<Rightarrow> Inl ''params must be an object'')"

definition parsePromptParams :: "json \<Rightarrow> string + PromptParams" where
  "parsePromptParams params =
     (case params of
        JNull \<Rightarrow> Inl ''params cannot be nil''
      | JObj paramsMap \<Rightarrow>
          (case map_of paramsMap ''name'' of
             Some (JStr name) \<Rightarrow>
               Inr \<lparr> promptName = name,
                     promptArguments =
                       (case map_of paramsMap ''arguments'' of
                          Some (JObj argsMap) \<Rightarrow> argsMap
                        | _ \<Rightarrow> []) \<rparr>
           | _ \<Rightarrow> Inl ''name parameter is required and must be a string'')
      | _ \<Rightarrow> Inl ''params must be an object'')"

subsection \<open>Request handlers\<close>

text \<open>
  The state of a dispatch is the pair of the handler state and the sender state.
  \<open>sending f h s\<close> runs the sender action \<open>f\<close> on \<open>s\<close> beside the handler state \<open>h\<close>.
\<close>

definition sending ::
  "('s \<Rightarrow> string option \<times> 's) \<Rightarrow> 'h \<Rightarrow> 's \<Rightarrow> string option \<times> ('h \<times> 's)" where
  "sending f h s = (case f s of (err, s') \<Rightarrow> (err, (h, s')))"

definition handleInitialize ::
  "('v, 'h) Server \<Rightarrow> ('v, 's) ctx_value \<Rightarrow> json \<Rightarrow> 'h \<times> 's \<Rightarrow> string option \<times> ('h \<times> 's)" where
  "handleInitialize srv ctx id' st =
     (case st of (h, s) \<Rightarrow>
        (case Initialize srv of
           Inl err \<Rightarrow>
             sending (sendError ctx id' ErrorCodeInternalError ''Failed to initialize'' (JStr err)) h s
         | Inr res \<Rightarrow> sending (sendResponse ctx id' (InitializeResult res)) h s))"

definition handleToolsList ::
  "('v, 'h) Server \<Rightarrow> ('v, 's) ctx_value \<Rightarrow> json \<Rightarrow> 'h \<times> 's \<Rightarrow> string option \<times> ('h \<times> 's)" where
  "handleToolsList srv ctx id' st =
     (case st of (h, s) \<Rightarrow>
        (case ListTools (toolHandler srv) h of
           (Inl err, h') \<Rightarrow>
             sending (sendError ctx id' ErrorCodeInternalError ''Failed to list tools'' (JStr err)) h' s
         | (Inr tools, h') \<Rightarrow> sending (sendResponse ctx id' (Keyed ''tools'' tools)) h' s))"

definition handleToolsCall ::
  "('v, 'h) Server \<Rightarrow> ('v, 's) ctx_value \<Rightarrow> json \<Rightarrow> Request \<Rightarrow> 'h \<times> 's
     \<Rightarrow> string option \<times> ('h \<times> 's)" where
  "handleToolsCall srv ctx id' req st =
     (case st of (h, s) \<Rightarrow>
        (case parseToolCallParams (Params req) of
           Inl err \<Rightarrow>
             sending (sendError ctx id' ErrorCodeInvalidParams
                        ''Invalid tool call parameters'' (JStr err)) h s
         | Inr params \<Rightarrow>
             (case CallTool (toolHandler srv) params h of
                (Inl err, h') \<Rightarrow>
                  sending (sendError ctx id' ErrorCodeInvalidParams
                             (''Tool call failed: '' @ err) JNull) h' s
              | (Inr response, h') \<Rightarrow>
                  sending (sendResponse ctx id' (Verbatim response)) h' s)))"

definition handleResourcesList ::
  "('v, 'h) Server \<Rightarrow> ('v, 's) ctx_value \<Rightarrow> json \<Rightarrow> 'h \<times> 's \<Rightarrow> string option \<times> ('h \<times> 's)" where
  "handleResourcesList srv ctx id' st =
     (case st of (h, s) \<Rightarrow>
        (case ListResources (resourceHandler srv) h of
           (Inl err, h') \<Rightarrow>
             sending (sendError ctx id' ErrorCodeInternalError
                        ''Failed to list resources'' (JStr err)) h' s
         | (Inr resources, h') \<Rightarrow>
             sending (sendResponse ctx id' (Keyed ''resources'' resources)) h' s))"

definition handleResourcesRead ::
  "('v, 'h) Server \<Rightarrow> ('v, 's) ctx_value \<Rightarrow> json \<Rightarrow> Request \<Rightarrow> 'h \<times> 's
     \<Rightarrow> string option \<times> ('h \<times> 's)" where
  "handleResourcesRead srv ctx id' req st =
     (case st of (h, s) \<Rightarrow>
        (case parseResourceParams (Params req) of
           Inl err \<Rightarrow>
             sending (sendError ctx id' ErrorCodeInvalidParams
                        ''Invalid resource read parameters'' (JStr err)) h s
         | Inr params \<Rightarrow>
             (case ReadResource (resourceHandler srv) params h of
                (Inl err, h') \<Rightarrow>
                  sending (sendError ctx id' ErrorCodeInvalidParams
                             (''Resource read failed: '' @ err) JNull) h' s
              | (Inr response, h') \<Rightarrow>
                  sending (sendResponse ctx id' (Verbatim response)) h' s)))"

definition handleResourceTemplatesList ::
  "('v, 'h) Server \<Rightarrow> ('v, 's) ctx_value \<Rightarrow> json \<Rightarrow> 'h \<times> 's \<Rightarrow> string option \<times> ('h \<times> 's)" where
  "handleResourceTemplatesList srv ctx id' st =
     (case st of (h, s) \<Rightarrow>
        (case ListResourceTemplates (resourceHandler srv) h of
           (Inl err, h') \<Rightarrow>
             sending (sendError ctx id' ErrorCodeInternalError
                        ''Failed to list resource templates'' (JStr err)) h' s
         | (Inr templates, h') \<Rightarrow>
             sending (sendResponse ctx id' (Keyed ''resourceTemplates'' templates)) h' s))"

definition handlePromptsList ::
  "('v, 'h) Server \<Rightarrow> ('v, 's) ctx_value \<Rightarrow> json \<Rightarrow> 'h \<times> 's \<Rightarrow> string option \<times> ('h \<times> 's)" where
  "handlePromptsList srv ctx id' st =
     (case st of (h, s) \<Rightarrow>
        (case ListPrompts (promptHandler srv) h of
           (Inl err, h') \<Rightarrow>
             sending (sendError ctx id' ErrorCodeInternalError
                        ''Failed to list prompts'' (JStr err)) h' s
         | (Inr prompts, h') \<Rightarrow>
             sending (sendResponse ctx id' (Keyed ''prompts'' prompts)) h' s))"

definition handlePromptsGet ::
  "('v, 'h) Server \<Rightarrow> ('v, 's) ctx_value \<Rightarrow> json \<Rightarrow> Request \<Rightarrow> 'h \<times> 's
     \<Rightarrow> string option \<times> ('h \<times> 's)" where
  "handlePromptsGet srv ctx id' req st =
     (case st of (h, s) \<Rightarrow>
        (case parsePromptParams (Params req) of
           Inl err \<Rightarrow>
             sending (sendError ctx id' ErrorCodeInvalidParams
                        ''Invalid prompt parameters'' (JStr err)) h s
         | Inr params \<Rightarrow>
             (case GetPrompt (promptHandler srv) params h of
                (Inl err, h') \<Rightarrow>
                  sending (sendError ctx id' ErrorCodeInvalidParams
                             (''Prompt call failed: '' @ err) JNull) h' s
              | (Inr response, h') \<Rightarrow>
                  sending (sendResponse ctx id' (Verbatim response)) h' s)))"

definition handlePing ::
  "('v, 's) ctx_value \<Rightarrow> json \<Rightarrow> 'h \<times> 's \<Rightarrow> string option \<times> ('h \<times> 's)" where
  "handlePing ctx id' st =
     (case st of (h, s) \<Rightarrow> sending (sendResponse ctx id' EmptyObject) h s)"

definition HandleRequest ::
  "('v, 'h) Server \<Rightarrow> ('v, 's) ctx_value \<Rightarrow> Request \<Rightarrow> 'h \<times> 's \<Rightarrow> string option \<times> ('h \<times> 's)" where
  "HandleRequest srv ctx req st =
     (if Method req = ''initialize'' then handleInitialize srv ctx (ID req) st
      else if Method req = ''tools/list'' then handleToolsList srv ctx (ID req) st
      else if Method req = ''tools/call'' then handleToolsCall srv ctx (ID req) req st
      else if Method req = ''resources/list'' then handleResourcesList srv ctx (ID req) st
      else if Method req = ''resources/read'' then handleResourcesRead srv ctx (ID req) req st
      else if Method req = ''resources/templates/list''
        then handleResourceTemplatesList srv ctx (ID req) st
      else if Method req = ''prompts/list'' then handlePromptsList srv ctx (ID req) st
      else if Method req = ''prompts/get'' then handlePromptsGet srv ctx (ID req) req st
      else if Method req = ''ping'' then handlePing ctx (ID req) st
      else (case st of (h, s) \<Rightarrow>
              sending (sendError ctx (ID req) ErrorCodeMethodNotFound
                         (''Method '' @ Method req @ '' not found'') JNull) h s))"


section \<open>Library functions the transports call\<close>

text \<open>
  \<open>encoding/json\<close> is not part of the repository, so the decoders are parameters:
  \<open>Unmarshal_Request\<close> is \<open>json.Unmarshal(line, &req)\<close> for an \<open>mcp.Request\<close>,
  \<open>Unmarshal_Map\<close> is \<open>json.Unmarshal(line, &m)\<close> for a \<open>map[string]any\<close>, and
  \<open>Decode_Request\<close> is \<open>json.NewDecoder(body).Decode(&req)\<close>; \<open>Inl\<close> carries
  \<open>err.Error()\<close>. The encoder is a parameter too: \<open>encode\<close> gives the bytes of a value,
  and \<open>encode_error\<close> says which handler results the encoder refuses. Everything else in
  a \<open>Response\<close> (a string, an id that was itself decoded from JSON or is the int -1, an
  \<open>ErrorResponse\<close> whose data is a string or nil) and a \<open>map[string]string\<close> always
  encode.
\<close>

datatype 'v wire =
    WResponse "'v Response"
  | WStringMap "(string \<times> string) list"

record 'v jsonlib =
  Unmarshal_Request :: "string \<Rightarrow> string + Request"
  Unmarshal_Map :: "string \<Rightarrow> string + (string \<times> json) list"
  Decode_Request :: "string \<Rightarrow> string + Request"
  encode :: "'v wire \<Rightarrow> string"
  encode_error :: "'v result \<Rightarrow> string option"

definition Marshal :: "'v jsonlib \<Rightarrow> 'v wire \<Rightarrow> string + string" where
  "Marshal J v =
     (case v of
        WResponse r \<Rightarrow>
          (case Result r of
             None \<Rightarrow> Inr (encode J v)
           | Some res \<Rightarrow>
               (case encode_error J res of
                  None \<Rightarrow> Inr (encode J v)
                | Some err \<Rightarrow> Inl err))
      | WStringMap m \<Rightarrow> Inr (encode J v))"

abbreviation NL :: string where
  "NL \<equiv> [CHR 0x0A]"

text \<open>\<open>strings.Contains\<close> and \<open>strings.Split(s, "\n")\<close>.\<close>

fun Contains :: "string \<Rightarrow> string \<Rightarrow> bool" where
  "Contains [] substr = (substr = [])"
| "Contains (c # cs) substr = (take (length substr) (c # cs) = substr \<or> Contains cs substr)"

fun Split :: "string \<Rightarrow> string list" where
  "Split [] = [[]]"
| "Split (c # cs) =
     (if c = CHR 0x0A then [] # Split cs
      else (case Split cs of l # ls \<Rightarrow> (c # l) # ls | [] \<Rightarrow> [[c]]))"

text \<open>
  Go's \<open>int\<close> is 64 bits wide on the platforms the server is built for; \<open>wrap64\<close> is
  what an \<open>int\<close> operation leaves of its mathematical result.
\<close>

definition wrap64 :: "int \<Rightarrow> int" where
  "wrap64 x = (x + 2 ^ 63) mod 2 ^ 64 - 2 ^ 63"

text \<open>
  \<open>strconv.Atoi\<close>: an optional sign, then one or more decimal digits, and the value has
  to fit an \<open>int\<close>; anything else is an error.
\<close>

definition digit_of :: "char \<Rightarrow> nat option" where
  "digit_of c = map_of
     [(CHR ''0'', 0), (CHR ''1'', 1), (CHR ''2'', 2), (CHR ''3'', 3), (CHR ''4'', 4),
      (CHR ''5'', 5), (CHR ''6'', 6), (CHR ''7'', 7), (CHR ''8'', 8), (CHR ''9'', 9)] c"

fun digits_value :: "string \<Rightarrow> nat \<Rightarrow> nat option" where
  "digits_value [] acc = Some acc"
| "digits_value (c # cs) acc =
     (case digit_of c of None \<Rightarrow> None | Some d \<Rightarrow> digits_value cs (acc * 10 + d))"

definition Atoi :: "string \<Rightarrow> int option" where
  "Atoi s =
     (let (neg, ds) =
            (case s of
               [] \<Rightarrow> (False, [])
             | c # cs \<Rightarrow>
                 if c = CHR ''-'' then (True, cs)
                 else if c = CHR ''+'' then (False, cs)
                 else (False, s))
      in if ds = [] then None
         else (case digits_value ds 0 of
                 None \<Rightarrow> None
               | Some n \<Rightarrow>
                   (let v = (if neg then - int n else int n)
                    in if - (2 ^ 63) \<le> v \<and> v \<le> 2 ^ 63 - 1 then Some v else None)))"

text \<open>The verb \<open>%d\<close> of \<open>fmt\<close>.\<close>

fun digits :: "nat \<Rightarrow> string" where
  "digits n =
     (if n < 10 then [''0123456789'' ! n]
      else digits (n div 10) @ [''0123456789'' ! (n mod 10)])"

declare digits.simps [simp del]

definition itoa :: "int \<Rightarrow> string" where
  "itoa i = (if i < 0 then CHR ''-'' # digits (nat (- i)) else digits (nat i))"


section \<open>Stdio transport (transport/stdio.go)\<close>

text \<open>
  Standard output is the list of the strings handed to \<open>fmt.Println\<close>, one entry per
  call, oldest first. Logging goes to standard error and is left out.
\<close>

type_synonym stdout = "string list"

definition StdoutSender_SendResponse ::
  "'v jsonlib \<Rightarrow> 'v Response \<Rightarrow> stdout \<Rightarrow> string option \<times> stdout" where
  "StdoutSender_SendResponse J response out =
     (case Marshal J (WResponse response) of
        Inl err \<Rightarrow> (Some (''failed to marshal response: '' @ err), out)
      | Inr jsonBytes \<Rightarrow> (None, out @ [jsonBytes]))"

definition StdoutSender_SendError ::
  "'v jsonlib \<Rightarrow> json \<Rightarrow> int \<Rightarrow> string \<Rightarrow> json \<Rightarrow> stdout \<Rightarrow> string option \<times> stdout" where
  "StdoutSender_SendError J id' code message data' out =
     StdoutSender_SendResponse J
       \<lparr> respJSONRPC = JSONRPCVersion, respID = id', Result = None,
         Error = Some \<lparr> Code = code, Message = message, Data = data' \<rparr> \<rparr> out"

definition StdoutSender :: "'v jsonlib \<Rightarrow> ('v, stdout) ResponseSender" where
  "StdoutSender J =
     \<lparr> SendResponse = StdoutSender_SendResponse J, SendError = StdoutSender_SendError J \<rparr>"

definition sendParseError ::
  "'v jsonlib \<Rightarrow> string \<Rightarrow> string \<Rightarrow> stdout \<Rightarrow> string option \<times> stdout" where
  "sendParseError J line err out =
     (let errorID =
            (case Unmarshal_Map J line of
               Inl unmarshalErr \<Rightarrow> JNum (- 1)
             | Inr partialReq \<Rightarrow>
                 (case map_of partialReq ''id'' of
                    None \<Rightarrow> JNum (- 1)
                  | Some id' \<Rightarrow> if id' \<noteq> JNull then id' else JNum (- 1)));
          errorResp =
            \<lparr> respJSONRPC = JSONRPCVersion, respID = errorID, Result = None,
              Error = Some \<lparr> Code = ErrorCodeParseError, Message = ''Parse error'',
                             Data = JStr err \<rparr> \<rparr>
      in (case Marshal J (WResponse errorResp) of
            Inl marshErr \<Rightarrow> (Some marshErr, out)
          | Inr respBytes \<Rightarrow> (None, out @ [respBytes])))"

definition handleMessage ::
  "'v jsonlib \<Rightarrow> ('v, 'h) Server \<Rightarrow> string \<Rightarrow> 'h \<times> stdout \<Rightarrow> string option \<times> ('h \<times> stdout)" where
  "handleMessage J srv line st =
     (case Unmarshal_Request J line of
        Inl err \<Rightarrow> (case st of (h, out) \<Rightarrow> sending (sendParseError J line err) h out)
      | Inr req \<Rightarrow>
          if JSONRPC req \<noteq> JSONRPCVersion then (None, st)
          else if ID req = JNull then (None, st)
          else HandleRequest srv (Sender (StdoutSender J)) req st)"

text \<open>
  The read loop of \<open>Start\<close> takes what its \<open>select\<close> receives, in the order it receives
  it: the cancellation of the context, a value of the error channel (\<open>None\<close> is a nil
  error, which a closed channel yields as well), or a value of the line channel (\<open>None\<close>
  when the channel is closed). With no event left the loop is still waiting.
\<close>

datatype event =
    CtxDone
  | FromErrChan "string option"
  | FromLineChan "string option"




section \<open>HTTP transport\<close>

definition contentTypeJSON :: string where
  "contentTypeJSON = ''application/json; charset=utf-8''"

definition contentTypeSSE :: string where
  "contentTypeSSE = ''text/event-stream; charset=utf-8''"

definition headerMCPSessionID :: string where
  "headerMCPSessionID = ''Mcp-Session-Id''"

definition sessionIDPrefix :: string where
  "sessionIDPrefix = ''session_''"

definition StatusOK :: nat where
  "StatusOK = 200"

definition StatusNoContent :: nat where
  "StatusNoContent = 204"

definition StatusBadRequest :: nat where
  "StatusBadRequest = 400"

definition StatusInternalServerError :: nat where
  "StatusInternalServerError = 500"

subsection \<open>The objects of \<open>net/http\<close>\<close>

text \<open>
  An \<open>http.ResponseWriter\<close>: the header map, the status code once it is written, and the
  byte strings handed to \<open>Write\<close>, one entry per call, oldest first. \<open>isFlusher\<close> says
  whether the writer implements \<open>http.Flusher\<close>. The first \<open>WriteHeader\<close> fixes the
  status; a \<open>Write\<close> or \<open>Flush\<close> before any \<open>WriteHeader\<close> sends status 200. Failing
  writes (a broken connection) are left out.
\<close>

record ResponseWriter =
  Header :: "(string \<times> string) list"
  Status :: "nat option"
  Body :: "string list"
  isFlusher :: bool
  Flushes :: nat

definition Header_Set :: "string \<Rightarrow> string \<Rightarrow> ResponseWriter \<Rightarrow> ResponseWriter" where
  "Header_Set k v w = w\<lparr> Header := AList.update k v (Header w) \<rparr>"

definition WriteHeader :: "nat \<Rightarrow> ResponseWriter \<Rightarrow> ResponseWriter" where
  "WriteHeader code w = (if Status w = None then w\<lparr> Status := Some code \<rparr> else w)"

definition Write :: "string \<Rightarrow> ResponseWriter \<Rightarrow> ResponseWriter" where
  "Write b w = (WriteHeader StatusOK w)\<lparr> Body := Body w @ [b] \<rparr>"

definition Flush :: "ResponseWriter \<Rightarrow> ResponseWriter" where
  "Flush w = (WriteHeader StatusOK w)\<lparr> Flushes := Suc (Flushes w) \<rparr>"

text \<open>\<open>http.Error\<close>.\<close>

definition http_Error :: "string \<Rightarrow> nat \<Rightarrow> ResponseWriter \<Rightarrow> ResponseWriter" where
  "http_Error msg code w =
     Write (msg @ NL)
       (WriteHeader code
          (Header_Set ''X-Content-Type-Options'' ''nosniff''
             (Header_Set ''Content-Type'' ''text/plain; charset=utf-8''
                (w\<lparr> Header := AList.delete ''Content-Length'' (Header w) \<rparr>))))"

text \<open>
  Of an incoming \<open>http.Request\<close> the transport reads three headers (\<open>Header.Get\<close> gives
  the empty string for a header that is absent) and the body.
\<close>

record HTTPRequest =
  Accept :: string
  LastEventID :: string
  McpSessionId :: string
  reqBody :: string

subsection \<open>The transport's objects\<close>

text \<open>
  Sessions, senders and response writers are shared through pointers (the registry, a
  sender and the handler of a connection may all hold the same session), so they live in
  a store and are named by their addresses. \<open>sessions\<close> is the field \<open>t.sessions\<close>, the
  map from session ids to session pointers.
\<close>

record SSESession =
  sessID :: string
  writer :: nat
  eventID :: int
  closed :: bool

record HTTPResponseSender =
  senderWriter :: nat
  sent :: bool

record HTTPTransport =
  sessions :: "(string \<times> nat) list"
  writerAt :: "nat \<Rightarrow> ResponseWriter"
  sessionAt :: "nat \<Rightarrow> SSESession"
  senderAt :: "nat \<Rightarrow> HTTPResponseSender"
  nextAddr :: nat

definition onWriter ::
  "nat \<Rightarrow> (ResponseWriter \<Rightarrow> ResponseWriter) \<Rightarrow> HTTPTransport \<Rightarrow> HTTPTransport" where
  "onWriter w f t = t\<lparr> writerAt := (writerAt t)(w := f (writerAt t w)) \<rparr>"

text \<open>\<open>json.NewEncoder(w).Encode(v)\<close>: the encoding and a newline in one \<open>Write\<close>.\<close>

definition Encode ::
  "'v jsonlib \<Rightarrow> nat \<Rightarrow> 'v wire \<Rightarrow> HTTPTransport \<Rightarrow> string option \<times> HTTPTransport" where
  "Encode J w v t =
     (case Marshal J v of
        Inl err \<Rightarrow> (Some err, t)
      | Inr b \<Rightarrow> (None, onWriter w (Write (b @ NL)) t))"

subsection \<open>Senders\<close>

definition HTTPResponseSender_SendResponse ::
  "'v jsonlib \<Rightarrow> nat \<Rightarrow> 'v Response \<Rightarrow> HTTPTransport \<Rightarrow> string option \<times> HTTPTransport" where
  "HTTPResponseSender_SendResponse J h response t =
     (if sent (senderAt t h) then (Some ''response already sent'', t)
      else
        (let w = senderWriter (senderAt t h);
             t1 = onWriter w (Header_Set ''Content-Type'' contentTypeJSON) t;
             t2 = onWriter w (WriteHeader StatusOK) t1;
             (err, t3) = Encode J w (WResponse response) t2
         in (err, t3\<lparr> senderAt := (senderAt t3)(h := (senderAt t3 h)\<lparr> sent := True \<rparr>) \<rparr>)))"

definition HTTPResponseSender_SendError ::
  "'v jsonlib \<Rightarrow> nat \<Rightarrow> json \<Rightarrow> int \<Rightarrow> string \<Rightarrow> json \<Rightarrow> HTTPTransport
     \<Rightarrow> string option \<times> HTTPTransport" where
  "HTTPResponseSender_SendError J h id' code message data' t =
     HTTPResponseSender_SendResponse J h
       \<lparr> respJSONRPC = JSONRPCVersion, respID = id', Result = None,
         Error = Some \<lparr> Code = code, Message = message, Data = data' \<rparr> \<rparr> t"

definition HTTPResponseSender_at :: "'v jsonlib \<Rightarrow> nat \<Rightarrow> ('v, HTTPTransport) ResponseSender" where
  "HTTPResponseSender_at J h =
     \<lparr> SendResponse = HTTPResponseSender_SendResponse J h,
       SendError = HTTPResponseSender_SendError J h \<rparr>"

definition sendEvent ::
  "'v jsonlib \<Rightarrow> nat \<Rightarrow> string \<Rightarrow> 'v wire \<Rightarrow> HTTPTransport \<Rightarrow> string option \<times> HTTPTransport" where
  "sendEvent J s eventType data' t =
     (if closed (sessionAt t s) then (Some ''session closed'', t)
      else
        (case Marshal J data' of
           Inl err \<Rightarrow> (Some err, t)
         | Inr dataBytes \<Rightarrow>
             (let w = writer (sessionAt t s);
                  t1 = onWriter w (Write (''id: '' @ itoa (eventID (sessionAt t s)) @ NL)) t;
                  t2 = (if eventType \<noteq> [] then onWriter w (Write (''event: '' @ eventType @ NL)) t1
                        else t1);
                  t3 = fold (\<lambda>line. onWriter w (Write (''data: '' @ line @ NL))) (Split dataBytes) t2;
                  t4 = onWriter w (Write NL) t3;
                  t5 = onWriter w Flush t4
              in (None,
                  t5\<lparr> sessionAt := (sessionAt t5)
                        (s := (sessionAt t5 s)\<lparr> eventID := wrap64 (eventID (sessionAt t5 s) + 1) \<rparr>) \<rparr>))))"

definition SSESession_sendError ::
  "'v jsonlib \<Rightarrow> nat \<Rightarrow> json \<Rightarrow> int \<Rightarrow> string \<Rightarrow> json \<Rightarrow> HTTPTransport
     \<Rightarrow> string option \<times> HTTPTransport" where
  "SSESession_sendError J s id' code message data' t =
     sendEvent J s []
       (WResponse \<lparr> respJSONRPC = JSONRPCVersion, respID = id', Result = None,
                    Error = Some \<lparr> Code = code, Message = message, Data = data' \<rparr> \<rparr>) t"

definition SSESession_close :: "nat \<Rightarrow> HTTPTransport \<Rightarrow> HTTPTransport" where
  "SSESession_close s t = t\<lparr> sessionAt := (sessionAt t)(s := (sessionAt t s)\<lparr> closed := True \<rparr>) \<rparr>"

definition SSEResponseSender_at :: "'v jsonlib \<Rightarrow> nat \<Rightarrow> ('v, HTTPTransport) ResponseSender" where
  "SSEResponseSender_at J s =
     \<lparr> SendResponse = (\<lambda>response. sendEvent J s [] (WResponse response)),
       SendError = SSESession_sendError J s \<rparr>"

subsection \<open>Transport methods\<close>

text \<open>\<open>HTTPTransport.sendError\<close>; the result of \<open>Encode\<close> is dropped, as in the source.\<close>

definition HTTPTransport_sendError ::
  "'v jsonlib \<Rightarrow> nat \<Rightarrow> json \<Rightarrow> int \<Rightarrow> string \<Rightarrow> json \<Rightarrow> HTTPTransport \<Rightarrow> HTTPTransport" where
  "HTTPTransport_sendError J w id' code message data' t =
     (let errorResp =
            \<lparr> respJSONRPC = JSONRPCVersion, respID = id', Result = None,
              Error = Some \<lparr> Code = code, Message = message, Data = data' \<rparr> \<rparr>;
          t1 = onWriter w (Header_Set ''Content-Type'' contentTypeJSON) t;
          t2 = onWriter w (WriteHeader StatusBadRequest) t1
      in snd (Encode J w (WResponse errorResp) t2))"

text \<open>
  The two readings of the clock in \<open>startSSEStream\<close>: \<open>time.Now().UnixNano()\<close> and
  \<open>time.Now().UTC().Format(time.RFC3339)\<close>.
\<close>

record clock =
  unixNano :: int
  rfc3339 :: string

definition startSSEStream ::
  "'v jsonlib \<Rightarrow> clock \<Rightarrow> nat \<Rightarrow> HTTPRequest \<Rightarrow> HTTPTransport \<Rightarrow> nat option \<times> HTTPTransport" where
  "startSSEStream J clk w r t =
     (if \<not> isFlusher (writerAt t w)
      then (None, onWriter w (http_Error ''Streaming unsupported'' StatusInternalServerError) t)
      else
        (let t1 = onWriter w (Header_Set ''Content-Type'' contentTypeSSE) t;
             t2 = onWriter w (Header_Set ''Cache-Control'' ''no-cache'') t1;
             t3 = onWriter w (Header_Set ''Connection'' ''keep-alive'') t2;
             t4 = onWriter w (Header_Set ''Access-Control-Allow-Origin'' ''*'') t3;
             lastEventID = LastEventID r;
             eventID0 =
               (if lastEventID \<noteq> [] then
                  (case Atoi lastEventID of Some id' \<Rightarrow> wrap64 (id' + 1) | None \<Rightarrow> 0)
                else 0);
             sessionID =
               (if McpSessionId r = [] then sessionIDPrefix @ itoa (unixNano clk)
                else McpSessionId r);
             session = nextAddr t4;
             t5 = t4\<lparr> sessionAt := (sessionAt t4)
                        (session := \<lparr> sessID = sessionID, writer = w, eventID = eventID0,
                                      closed = False \<rparr>),
                      nextAddr := Suc (nextAddr t4) \<rparr>;
             t6 = t5\<lparr> sessions := AList.update sessionID session (sessions t5) \<rparr>;
             t7 = onWriter w (Header_Set headerMCPSessionID sessionID) t6;
             t8 = snd (sendEvent J session ''connected''
                         (WStringMap [(''sessionId'', sessionID), (''timestamp'', rfc3339 clk)]) t7)
         in (Some session, t8)))"

definition handleJSONRequest ::
  "'v jsonlib \<Rightarrow> ('v, 'h) Server \<Rightarrow> nat \<Rightarrow> Request \<Rightarrow> 'h \<times> HTTPTransport \<Rightarrow> 'h \<times> HTTPTransport" where
  "handleJSONRequest J srv w req st =
     (case st of (h, t) \<Rightarrow>
        (let httpSender = nextAddr t;
             t1 = t\<lparr> senderAt := (senderAt t)(httpSender := \<lparr> senderWriter = w, sent = False \<rparr>),
                     nextAddr := Suc (nextAddr t) \<rparr>
         in (case HandleRequest srv (Sender (HTTPResponseSender_at J httpSender)) req (h, t1) of
               (Some err, (h', t2)) \<Rightarrow>
                 if \<not> sent (senderAt t2 httpSender)
                 then (h', HTTPTransport_sendError J w (ID req) ErrorCodeInternalError
                             ''Internal error'' (JStr err) t2)
                 else (h', t2)
             | (None, (h', t2)) \<Rightarrow>
                 if \<not> sent (senderAt t2 httpSender)
                 then (h', HTTPTransport_sendError J w (ID req) ErrorCodeInternalError
                             ''No response generated'' JNull t2)
                 else (h', t2))))"

definition handleSSERequest ::
  "'v jsonlib \<Rightarrow> ('v, 'h) Server \<Rightarrow> clock \<Rightarrow> nat \<Rightarrow> HTTPRequest \<Rightarrow> Request
     \<Rightarrow> 'h \<times> HTTPTransport \<Rightarrow> 'h \<times> HTTPTransport" where
  "handleSSERequest J srv clk w r req st =
     (case st of (h, t) \<Rightarrow>
        (case startSSEStream J clk w r t of
           (None, t1) \<Rightarrow> (h, t1)
         | (Some session, t1) \<Rightarrow>
             (case HandleRequest srv (Sender (SSEResponseSender_at J session)) req (h, t1) of
                (Some err, (h', t2)) \<Rightarrow>
                  (h', snd (SSESession_sendError J session (ID req) ErrorCodeInternalError
                              ''Internal error'' (JStr err) t2))
              | (None, st') \<Rightarrow> st')))"

definition handlePost ::
  "'v jsonlib \<Rightarrow> ('v, 'h) Server \<Rightarrow> clock \<Rightarrow> nat \<Rightarrow> HTTPRequest
     \<Rightarrow> 'h \<times> HTTPTransport \<Rightarrow> 'h \<times> HTTPTransport" where
  "handlePost J srv clk w r st =
     (case st of (h, t) \<Rightarrow>
        (case Decode_Request J (reqBody r) of
           Inl err \<Rightarrow>
             (h, HTTPTransport_sendError J w (JNum (- 1)) ErrorCodeParseError
                   ''Parse error'' (JStr err) t)
         | Inr req \<Rightarrow>
             (let acceptHeader = Accept r;
                  wantsSSE = Contains acceptHeader ''text/event-stream'';
                  wantsJSON = Contains acceptHeader ''application/json''
              in if \<not> wantsJSON \<and> \<not> wantsSSE
                 then (h, HTTPTransport_sendError J w (ID req) ErrorCodeInvalidRequest
                            ''Accept header must include application/json and/or text/event-stream''
                            JNull t)
                 else if JSONRPC req \<noteq> JSONRPCVersion
                 then (h, HTTPTransport_sendError J w (ID req) ErrorCodeInvalidRequest
                            ''Invalid JSON-RPC version'' JNull t)
                 else if ID req = JNull
                 then (h, onWriter w (WriteHeader StatusNoContent) t)
                 else if wantsSSE \<and> ID req \<noteq> JNull
                 then handleSSERequest J srv clk w r req (h, t)
                 else handleJSONRequest J srv w req (h, t))))"

text \<open>
  \<open>handleGet\<close> opens the stream and then blocks on \<open>ctx.Done()\<close>. \<open>handleGet\<close> is the
  part before the wait: it returns the session the handler is now blocked with, or
  \<open>None\<close> when it has returned already. \<open>handleGet_done\<close> is the part after the wait.
\<close>

definition handleGet ::
  "'v jsonlib \<Rightarrow> clock \<Rightarrow> nat \<Rightarrow> HTTPRequest \<Rightarrow> HTTPTransport \<Rightarrow> nat option \<times> HTTPTransport" where
  "handleGet J clk w r t = startSSEStream J clk w r t"

definition handleGet_done :: "nat \<Rightarrow> HTTPTransport \<Rightarrow> HTTPTransport" where
  "handleGet_done session t =
     t\<lparr> sessions := AList.delete (sessID (sessionAt t session)) (sessions t) \<rparr>"

text \<open>
  \<open>Stop\<close>. The argument is what \<open>t.server\<close> does: \<open>None\<close> when there is no server yet,
  otherwise the result of its \<open>Shutdown\<close>.
\<close>

definition Stop ::
  "string option option \<Rightarrow> HTTPTransport \<Rightarrow> string option \<times> HTTPTransport" where
  "Stop server t =
     (let t1 = fold (\<lambda>(sid, session). SSESession_close session) (sessions t) t;
          t2 = t1\<lparr> sessions := [] \<rparr>
      in (case server of
            Some shutdownResult \<Rightarrow> (shutdownResult, t2)
          | None \<Rightarrow> (None, t2)))"


section \<open>Vocabulary of the statements\<close>

text \<open>
  \<open>one_reply i f\<close>: whatever sender \<open>f\<close> is run with, it makes exactly one call of that
  sender, and the call is either \<open>SendResponse\<close> with a well-formed success response for
  the id \<open>i\<close> or \<open>SendError\<close> for the id \<open>i\<close>.
\<close>

definition one_reply ::
  "json \<Rightarrow> (('v, 's) ResponseSender \<Rightarrow> 's \<Rightarrow> string option \<times> ('h \<times> 's)) \<Rightarrow> bool" where
  "one_reply i f \<longleftrightarrow>
     (\<exists>h' r. (\<forall>rs s. f rs s = sending (SendResponse rs r) h' s) \<and>
        respJSONRPC r = ''2.0'' \<and> respID r = i \<and> Result r \<noteq> None \<and> Error r = None)
   \<or> (\<exists>h' code message data'. \<forall>rs s. f rs s = sending (SendError rs i code message data') h' s)"

text \<open>
  \<open>required_string params k\<close> is the string under key \<open>k\<close> when \<open>params\<close> is an object
  that has one, and \<open>None\<close> when \<open>params\<close> is nil, not an object, or has no string there.
\<close>

definition required_string :: "json \<Rightarrow> string \<Rightarrow> string option" where
  "required_string params k =
     (case params of
        JObj m \<Rightarrow> (case map_of m k of Some (JStr v) \<Rightarrow> Some v | _ \<Rightarrow> None)
      | _ \<Rightarrow> None)"

subsection \<open>Example objects\<close>

text \<open>
  A sender that keeps the responses it is given, and a server whose handlers know one
  tool, one resource and one prompt and count their calls in the handler state.
\<close>

definition recorder :: "('v, 'v Response list) ResponseSender" where
  "recorder =
     \<lparr> SendResponse = (\<lambda>response s. (None, s @ [response])),
       SendError = (\<lambda>id' code message data' s.
         (None, s @ [\<lparr> respJSONRPC = JSONRPCVersion, respID = id', Result = None,
                       Error = Some \<lparr> Code = code, Message = message, Data = data' \<rparr> \<rparr>])) \<rparr>"

definition example_server :: "(string, nat) Server" where
  "example_server =
     \<lparr> toolHandler =
         \<lparr> ListTools = (\<lambda>h. (Inr [''getTeaNames''], Suc h)),
           CallTool = (\<lambda>params h.
             (if toolName params = ''getTeaNames'' then Inr ''earl-grey''
              else Inl (''unknown tool: '' @ toolName params), Suc h)) \<rparr>,
       resourceHandler =
         \<lparr> ListResources = (\<lambda>h. (Inr [''menu://tea''], Suc h)),
           ReadResource = (\<lambda>params h.
             (if URI params = ''menu://tea'' then Inr ''menu''
              else Inl (''unknown resource: '' @ URI params), Suc h)),
           ListResourceTemplates = (\<lambda>h. (Inr [], Suc h)) \<rparr>,
       promptHandler =
         \<lparr> ListPrompts = (\<lambda>h. (Inr [''brewing_guide''], Suc h)),
           GetPrompt = (\<lambda>params h.
             (if promptName params = ''brewing_guide'' then Inr ''guide''
              else Inl (''unknown prompt: '' @ promptName params), Suc h)) \<rparr>,
       serverInfo = \<lparr> Name = ''MCP Server'', Version = ''1.0.0'' \<rparr> \<rparr>"


definition example_ping :: Request where
  "example_ping = \<lparr> JSONRPC = ''2.0'', Method = ''ping'', ID = JNum 7, Params = JNull \<rparr>"

definition example_tool_call :: "json \<Rightarrow> Request" where
  "example_tool_call params =
     \<lparr> JSONRPC = ''2.0'', Method = ''tools/call'', ID = JNum 1, Params = params \<rparr>"

definition example_resource_read :: "json \<Rightarrow> Request" where
  "example_resource_read params =
     \<lparr> JSONRPC = ''2.0'', Method = ''resources/read'', ID = JNum 2, Params = params \<rparr>"

definition example_prompt_get :: "json \<Rightarrow> Request" where
  "example_prompt_get params =
     \<lparr> JSONRPC = ''2.0'', Method = ''prompts/get'', ID = JStr ''p-3'', Params = params \<rparr>"


text \<open>
  An example codec. It decodes the lines of two tables, the first holding the lines that
  are requests, the second the lines that are JSON objects but not requests (a method
  that is a number); every other line is an error, the empty one among them. Its encoder
  prints the id of a response and its error code.
\<close>

definition example_requests :: "(string \<times> Request) list" where
  \<open>example_requests =
     [(''{"jsonrpc":"2.0","id":7,"method":"ping"}'',
       \<lparr> JSONRPC = ''2.0'', Method = ''ping'', ID = JNum 7, Params = JNull \<rparr>),
      (''{"jsonrpc":"2.0","method":"notifications/initialized"}'',
       \<lparr> JSONRPC = ''2.0'', Method = ''notifications/initialized'', ID = JNull,
         Params = JNull \<rparr>),
      (''{"jsonrpc":"1.0","id":7,"method":"ping"}'',
       \<lparr> JSONRPC = ''1.0'', Method = ''ping'', ID = JNum 7, Params = JNull \<rparr>)]\<close>

definition example_objects :: "(string \<times> (string \<times> json) list) list" where
  \<open>example_objects =
     [(''{"id":5,"method":42}'', [(''id'', JNum 5), (''method'', JNum 42)]),
      (''{"id":null,"method":42}'', [(''id'', JNull), (''method'', JNum 42)])]\<close>

definition example_line_ping :: string where
  \<open>example_line_ping = ''{"jsonrpc":"2.0","id":7,"method":"ping"}''\<close>

definition example_line_notification :: string where
  \<open>example_line_notification = ''{"jsonrpc":"2.0","method":"notifications/initialized"}''\<close>

definition example_line_old_version :: string where
  \<open>example_line_old_version = ''{"jsonrpc":"1.0","id":7,"method":"ping"}''\<close>



definition example_show_id :: "json \<Rightarrow> string" where
  "example_show_id i =
     (case i of JNum n \<Rightarrow> itoa \<lfloor>n\<rfloor> | JStr s \<Rightarrow> s | JNull \<Rightarrow> ''null'' | _ \<Rightarrow> ''?'')"

definition example_encode :: "string wire \<Rightarrow> string" where
  "example_encode v =
     (case v of
        WResponse r \<Rightarrow>
          ''id='' @ example_show_id (respID r) @
          (case Error r of Some e \<Rightarrow> '' error='' @ itoa (Code e) | None \<Rightarrow> '' result'')
      | WStringMap m \<Rightarrow> concat (map (\<lambda>(k, v). k @ ''='' @ v @ '';'') m))"

definition example_codec :: "string jsonlib" where
  "example_codec =
     \<lparr> Unmarshal_Request = (\<lambda>line.
         if line = [] then Inl ''unexpected end of JSON input''
         else (case map_of example_requests line of
                 Some req \<Rightarrow> Inr req
               | None \<Rightarrow> Inl ''cannot decode into Request'')),
       Unmarshal_Map = (\<lambda>line.
         if line = [] then Inl ''unexpected end of JSON input''
         else (case map_of example_objects line of
                 Some m \<Rightarrow> Inr m
               | None \<Rightarrow> Inl ''cannot decode into map'')),
       Decode_Request = (\<lambda>body.
         if body = [] then Inl ''EOF''
         else (case map_of example_requests body of
                 Some req \<Rightarrow> Inr req
               | None \<Rightarrow> Inl ''cannot decode into Request'')),
       encode = example_encode,
       encode_error = (\<lambda>res. None) \<rparr>"


text \<open>
  An example transport with no session yet, whose response writers are fresh and can
  flush; an example clock; and a POST with a given \<open>Accept\<close> header and body.
\<close>

definition example_writer :: ResponseWriter where
  "example_writer = \<lparr> Header = [], Status = None, Body = [], isFlusher = True, Flushes = 0 \<rparr>"

definition example_transport :: HTTPTransport where
  "example_transport =
     \<lparr> sessions = [],
       writerAt = (\<lambda>w. example_writer),
       sessionAt = (\<lambda>s. \<lparr> sessID = [], writer = 0, eventID = 0, closed = False \<rparr>),
       senderAt = (\<lambda>h. \<lparr> senderWriter = 0, sent = False \<rparr>),
       nextAddr = 0 \<rparr>"

definition example_clock :: clock where
  "example_clock = \<lparr> unixNano = 1700000000000000000, rfc3339 = ''2023-11-14T22:13:20Z'' \<rparr>"

definition example_post :: "string \<Rightarrow> string \<Rightarrow> HTTPRequest" where
  "example_post accept body =
     \<lparr> Accept = accept, LastEventID = [], McpSessionId = [], reqBody = body \<rparr>"


text \<open>
  A success response to the example \<open>ping\<close>; a transport in which a direct sender for
  writer 3 has just been made; and a transport with two open sessions in its registry.
\<close>

definition example_pong :: "string Response" where
  "example_pong =
     \<lparr> respJSONRPC = ''2.0'', respID = JNum 7, Result = Some EmptyObject, Error = None \<rparr>"

definition example_transport_with_sender :: HTTPTransport where
  "example_transport_with_sender =
     example_transport\<lparr> senderAt := (senderAt example_transport)
                                        (0 := \<lparr> senderWriter = 3, sent = False \<rparr>),
                        nextAddr := 1 \<rparr>"

definition example_transport_two_sessions :: HTTPTransport where
  "example_transport_two_sessions =
     example_transport\<lparr> sessions := [(''session-a'', 0), (''session-b'', 1)],
                        sessionAt := (sessionAt example_transport)
                          (0 := \<lparr> sessID = ''session-a'', writer = 4, eventID = 2, closed = False \<rparr>,
                           1 := \<lparr> sessID = ''session-b'', writer = 5, eventID = 0, closed = False \<rparr>),
                        nextAddr := 2 \<rparr>"


subsection \<open>Observing event streams\<close>

text \<open>
  \<open>id_lines body\<close> are the \<open>id:\<close> lines among the strings written to a stream, in the
  order they were written. \<open>sendEvents J s calls\<close> makes the calls of \<open>sendEvent\<close> on
  session \<open>s\<close> one after the other and returns the error of each.
\<close>

definition id_lines :: "string list \<Rightarrow> string list" where
  "id_lines body = filter (\<lambda>chunk. take 4 chunk = ''id: '') body"

fun sendEvents ::
  "'v jsonlib \<Rightarrow> nat \<Rightarrow> (string \<times> 'v wire) list \<Rightarrow> HTTPTransport
     \<Rightarrow> string option list \<times> HTTPTransport" where
  "sendEvents J s [] t = ([], t)"
| "sendEvents J s ((eventType, data') # calls) t =
     (case sendEvent J s eventType data' t of
        (err, t1) \<Rightarrow> (case sendEvents J s calls t1 of (errs, t2) \<Rightarrow> (err # errs, t2)))"

text \<open>
  A GET with given \<open>Last-Event-ID\<close> and \<open>Mcp-Session-Id\<close> headers, and a POST of the
  example \<open>ping\<close> that accepts an event stream and names the session \<open>abc\<close>.
\<close>

definition example_get :: "string \<Rightarrow> string \<Rightarrow> HTTPRequest" where
  "example_get lastEventID sessionID =
     \<lparr> Accept = ''text/event-stream'', LastEventID = lastEventID, McpSessionId = sessionID,
       reqBody = [] \<rparr>"

definition example_sse_post :: HTTPRequest where
  "example_sse_post =
     \<lparr> Accept = ''text/event-stream'', LastEventID = [], McpSessionId = ''abc'',
       reqBody = example_line_ping \<rparr>"


section \<open>Verified properties\<close>

subsection \<open>The dispatcher makes one sender call\<close>

lemma reply_response: "one_reply i (\<lambda>rs s. sending (sendResponse (Sender rs) i res) h' s)"
  unfolding one_reply_def sendResponse_def sendResponseDirect_def JSONRPCVersion_def
  apply (rule disjI1)
  apply (rule exI, rule exI)
  apply (rule conjI)
   apply (intro allI)
   apply (simp only: ctx_value.case)
  apply simp
  done

lemma reply_error: "one_reply i (\<lambda>rs s. sending (sendError (Sender rs) i c m d) h' s)"
  unfolding one_reply_def sendError_def
  apply (rule disjI2)
  apply (intro exI allI)
  apply (simp only: ctx_value.case)
  done

lemma handleInitialize_reply: "one_reply i (\<lambda>rs s. handleInitialize srv (Sender rs) i (h, s))"
  by (simp add: handleInitialize_def Initialize_def reply_response)

lemma handlePing_reply: "one_reply i (\<lambda>rs s. handlePing (Sender rs) i (h, s))"
  by (simp add: handlePing_def reply_response)

lemma handleToolsList_reply: "one_reply i (\<lambda>rs s. handleToolsList srv (Sender rs) i (h, s))"
proof (cases "ListTools (toolHandler srv) h")
  case (Pair res h')
  then show ?thesis
    by (cases res) (simp_all add: handleToolsList_def reply_response reply_error)
qed

lemma handleResourcesList_reply:
  "one_reply i (\<lambda>rs s. handleResourcesList srv (Sender rs) i (h, s))"
proof (cases "ListResources (resourceHandler srv) h")
  case (Pair res h')
  then show ?thesis
    by (cases res) (simp_all add: handleResourcesList_def reply_response reply_error)
qed

lemma handleResourceTemplatesList_reply:
  "one_reply i (\<lambda>rs s. handleResourceTemplatesList srv (Sender rs) i (h, s))"
proof (cases "ListResourceTemplates (resourceHandler srv) h")
  case (Pair res h')
  then show ?thesis
    by (cases res) (simp_all add: handleResourceTemplatesList_def reply_response reply_error)
qed

lemma handlePromptsList_reply:
  "one_reply i (\<lambda>rs s. handlePromptsList srv (Sender rs) i (h, s))"
proof (cases "ListPrompts (promptHandler srv) h")
  case (Pair res h')
  then show ?thesis
    by (cases res) (simp_all add: handlePromptsList_def reply_response reply_error)
qed

lemma handleToolsCall_reply: "one_reply i (\<lambda>rs s. handleToolsCall srv (Sender rs) i req (h, s))"
proof (cases "parseToolCallParams (Params req)")
  case (Inl err)
  then show ?thesis by (simp add: handleToolsCall_def reply_error)
next
  case (Inr params)
  show ?thesis
  proof (cases "CallTool (toolHandler srv) params h")
    case (Pair res h')
    with Inr show ?thesis
      by (cases res) (simp_all add: handleToolsCall_def reply_response reply_error)
  qed
qed

lemma handleResourcesRead_reply:
  "one_reply i (\<lambda>rs s. handleResourcesRead srv (Sender rs) i req (h, s))"
proof (cases "parseResourceParams (Params req)")
  case (Inl err)
  then show ?thesis by (simp add: handleResourcesRead_def reply_error)
next
  case (Inr params)
  show ?thesis
  proof (cases "ReadResource (resourceHandler srv) params h")
    case (Pair res h')
    with Inr show ?thesis
      by (cases res) (simp_all add: handleResourcesRead_def reply_response reply_error)
  qed
qed

lemma handlePromptsGet_reply:
  "one_reply i (\<lambda>rs s. handlePromptsGet srv (Sender rs) i req (h, s))"
proof (cases "parsePromptParams (Params req)")
  case (Inl err)
  then show ?thesis by (simp add: handlePromptsGet_def reply_error)
next
  case (Inr params)
  show ?thesis
  proof (cases "GetPrompt (promptHandler srv) params h")
    case (Pair res h')
    with Inr show ?thesis
      by (cases res) (simp_all add: handlePromptsGet_def reply_response reply_error)
  qed
qed

lemma one_reply_if:
  "one_reply i (\<lambda>rs s. if c then f rs s else g rs s) \<longleftrightarrow>
     (if c then one_reply i f else one_reply i g)"
  by (cases c) simp_all

lemma HandleRequest_reply:
  "one_reply (ID req) (\<lambda>rs s. HandleRequest srv (Sender rs) req (h, s))"
  unfolding HandleRequest_def
  by (simp add: one_reply_if handleInitialize_reply handlePing_reply handleToolsList_reply
      handleResourcesList_reply handleResourceTemplatesList_reply handlePromptsList_reply
      handleToolsCall_reply handleResourcesRead_reply handlePromptsGet_reply reply_error)

lemma parseToolCallParams_fails:
  "(\<exists>err. parseToolCallParams p = Inl err) \<longleftrightarrow> required_string p ''name'' = None"
  by (auto simp: parseToolCallParams_def required_string_def split: json.splits option.splits)

lemma parseResourceParams_fails:
  "(\<exists>err. parseResourceParams p = Inl err) \<longleftrightarrow> required_string p ''uri'' = None"
  by (auto simp: parseResourceParams_def required_string_def split: json.splits option.splits)

lemma parsePromptParams_fails:
  "(\<exists>err. parsePromptParams p = Inl err) \<longleftrightarrow> required_string p ''name'' = None"
  by (auto simp: parsePromptParams_def required_string_def split: json.splits option.splits)

subsection \<open>Responses carry the id of their request\<close>

lemma StdoutSender_SendError_eq:
  "SendError (StdoutSender J) i c m d =
     SendResponse (StdoutSender J)
       \<lparr> respJSONRPC = ''2.0'', respID = i, Result = None,
         Error = Some \<lparr> Code = c, Message = m, Data = d \<rparr> \<rparr>"
  by (rule ext) (simp add: StdoutSender_def StdoutSender_SendError_def JSONRPCVersion_def)

lemma HTTPResponseSender_SendError_eq:
  "SendError (HTTPResponseSender_at J p) i c m d =
     SendResponse (HTTPResponseSender_at J p)
       \<lparr> respJSONRPC = ''2.0'', respID = i, Result = None,
         Error = Some \<lparr> Code = c, Message = m, Data = d \<rparr> \<rparr>"
  by (rule ext)
    (simp add: HTTPResponseSender_at_def HTTPResponseSender_SendError_def JSONRPCVersion_def)

lemma SSEResponseSender_SendError_eq:
  "SendError (SSEResponseSender_at J p) i c m d =
     SendResponse (SSEResponseSender_at J p)
       \<lparr> respJSONRPC = ''2.0'', respID = i, Result = None,
         Error = Some \<lparr> Code = c, Message = m, Data = d \<rparr> \<rparr>"
  by (rule ext)
    (simp add: SSEResponseSender_at_def SSESession_sendError_def JSONRPCVersion_def)

subsection \<open>What each method sends on success\<close>

lemma HandleRequest_initialize:
  "Method req = ''initialize'' \<Longrightarrow>
   \<exists>x. Initialize srv = Inr x \<and>
     HandleRequest srv (Sender rs) req (h, s) =
       sending (SendResponse rs \<lparr> respJSONRPC = ''2.0'', respID = ID req, Result = Some (InitializeResult x), Error = None \<rparr>) h s"
  unfolding HandleRequest_def handleInitialize_def sendResponse_def sendResponseDirect_def
    JSONRPCVersion_def Initialize_def
  by simp

lemma HandleRequest_ping:
  "Method req = ''ping'' \<Longrightarrow>
   HandleRequest srv (Sender rs) req (h, s) =
     sending (SendResponse rs \<lparr> respJSONRPC = ''2.0'', respID = ID req, Result = Some (EmptyObject), Error = None \<rparr>) h s"
  unfolding HandleRequest_def handlePing_def sendResponse_def sendResponseDirect_def
    JSONRPCVersion_def
  by simp

lemma HandleRequest_list_methods:
  "Method req = ''tools/list'' \<Longrightarrow> ListTools (toolHandler srv) h = (Inr vs, h') \<Longrightarrow>
   HandleRequest srv (Sender rs) req (h, s) =
     sending (SendResponse rs \<lparr> respJSONRPC = ''2.0'', respID = ID req, Result = Some (Keyed ''tools'' vs), Error = None \<rparr>) h' s"
  "Method req = ''resources/list'' \<Longrightarrow> ListResources (resourceHandler srv) h = (Inr vs, h') \<Longrightarrow>
   HandleRequest srv (Sender rs) req (h, s) =
     sending (SendResponse rs \<lparr> respJSONRPC = ''2.0'', respID = ID req, Result = Some (Keyed ''resources'' vs), Error = None \<rparr>) h' s"
  "Method req = ''resources/templates/list'' \<Longrightarrow> ListResourceTemplates (resourceHandler srv) h = (Inr vs, h') \<Longrightarrow>
   HandleRequest srv (Sender rs) req (h, s) =
     sending (SendResponse rs \<lparr> respJSONRPC = ''2.0'', respID = ID req, Result = Some (Keyed ''resourceTemplates'' vs), Error = None \<rparr>) h' s"
  "Method req = ''prompts/list'' \<Longrightarrow> ListPrompts (promptHandler srv) h = (Inr vs, h') \<Longrightarrow>
   HandleRequest srv (Sender rs) req (h, s) =
     sending (SendResponse rs \<lparr> respJSONRPC = ''2.0'', respID = ID req, Result = Some (Keyed ''prompts'' vs), Error = None \<rparr>) h' s"
  unfolding HandleRequest_def handleToolsList_def handleResourcesList_def
    handleResourceTemplatesList_def handlePromptsList_def sendResponse_def sendResponseDirect_def
    JSONRPCVersion_def
  by simp_all

lemma HandleRequest_tools_call:
  "Method req = ''tools/call'' \<Longrightarrow>
   HandleRequest srv (Sender rs) req (h, s) =
     (case parseToolCallParams (Params req) of
        Inl err \<Rightarrow>
          sending (SendError rs (ID req) (- 32602) ''Invalid tool call parameters'' (JStr err)) h s
      | Inr params \<Rightarrow>
          (case CallTool (toolHandler srv) params h of
             (Inl err, h') \<Rightarrow>
               sending (SendError rs (ID req) (- 32602) (''Tool call failed: '' @ err) JNull) h' s
           | (Inr v, h') \<Rightarrow>
               sending (SendResponse rs \<lparr> respJSONRPC = ''2.0'', respID = ID req,
                                         Result = Some (Verbatim v), Error = None \<rparr>) h' s))"
  unfolding HandleRequest_def handleToolsCall_def sendError_def sendResponse_def
    sendResponseDirect_def ErrorCodeInvalidParams_def JSONRPCVersion_def
  by (simp split: sum.splits prod.splits)

lemma HandleRequest_resources_read:
  "Method req = ''resources/read'' \<Longrightarrow>
   HandleRequest srv (Sender rs) req (h, s) =
     (case parseResourceParams (Params req) of
        Inl err \<Rightarrow>
          sending (SendError rs (ID req) (- 32602) ''Invalid resource read parameters'' (JStr err)) h s
      | Inr params \<Rightarrow>
          (case ReadResource (resourceHandler srv) params h of
             (Inl err, h') \<Rightarrow>
               sending (SendError rs (ID req) (- 32602) (''Resource read failed: '' @ err) JNull) h' s
           | (Inr v, h') \<Rightarrow>
               sending (SendResponse rs \<lparr> respJSONRPC = ''2.0'', respID = ID req,
                                         Result = Some (Verbatim v), Error = None \<rparr>) h' s))"
  unfolding HandleRequest_def handleResourcesRead_def sendError_def sendResponse_def
    sendResponseDirect_def ErrorCodeInvalidParams_def JSONRPCVersion_def
  by (simp split: sum.splits prod.splits)

lemma HandleRequest_prompts_get:
  "Method req = ''prompts/get'' \<Longrightarrow>
   HandleRequest srv (Sender rs) req (h, s) =
     (case parsePromptParams (Params req) of
        Inl err \<Rightarrow>
          sending (SendError rs (ID req) (- 32602) ''Invalid prompt parameters'' (JStr err)) h s
      | Inr params \<Rightarrow>
          (case GetPrompt (promptHandler srv) params h of
             (Inl err, h') \<Rightarrow>
               sending (SendError rs (ID req) (- 32602) (''Prompt call failed: '' @ err) JNull) h' s
           | (Inr v, h') \<Rightarrow>
               sending (SendResponse rs \<lparr> respJSONRPC = ''2.0'', respID = ID req,
                                         Result = Some (Verbatim v), Error = None \<rparr>) h' s))"
  unfolding HandleRequest_def handlePromptsGet_def sendError_def sendResponse_def
    sendResponseDirect_def ErrorCodeInvalidParams_def JSONRPCVersion_def
  by (simp split: sum.splits prod.splits)

lemma HandleRequest_success_cases:
  fixes rs :: "('v, 's) ResponseSender"
  shows "(Method req = ''initialize'' \<longrightarrow>
      (\<exists>x. Initialize srv = Inr x \<and>
         HandleRequest srv (Sender rs) req (h, s) =
           sending (SendResponse rs \<lparr> respJSONRPC = ''2.0'', respID = ID req, Result = Some (InitializeResult x), Error = None \<rparr>) h s))
   \<and> (Method req = ''ping'' \<longrightarrow>
      HandleRequest srv (Sender rs) req (h, s) =
        sending (SendResponse rs \<lparr> respJSONRPC = ''2.0'', respID = ID req, Result = Some (EmptyObject), Error = None \<rparr>) h s)
   \<and> (Method req = ''tools/list'' \<and> ListTools (toolHandler srv) h = (Inr vs, h') \<longrightarrow>
      HandleRequest srv (Sender rs) req (h, s) =
        sending (SendResponse rs \<lparr> respJSONRPC = ''2.0'', respID = ID req, Result = Some (Keyed ''tools'' vs), Error = None \<rparr>) h' s)
   \<and> (Method req = ''resources/list'' \<and> ListResources (resourceHandler srv) h = (Inr vs, h') \<longrightarrow>
      HandleRequest srv (Sender rs) req (h, s) =
        sending (SendResponse rs \<lparr> respJSONRPC = ''2.0'', respID = ID req, Result = Some (Keyed ''resources'' vs), Error = None \<rparr>) h' s)
   \<and> (Method req = ''resources/templates/list'' \<and> ListResourceTemplates (resourceHandler srv) h = (Inr vs, h') \<longrightarrow>
      HandleRequest srv (Sender rs) req (h, s) =
        sending (SendResponse rs \<lparr> respJSONRPC = ''2.0'', respID = ID req, Result = Some (Keyed ''resourceTemplates'' vs), Error = None \<rparr>) h' s)
   \<and> (Method req = ''prompts/list'' \<and> ListPrompts (promptHandler srv) h = (Inr vs, h') \<longrightarrow>
      HandleRequest srv (Sender rs) req (h, s) =
        sending (SendResponse rs \<lparr> respJSONRPC = ''2.0'', respID = ID req, Result = Some (Keyed ''prompts'' vs), Error = None \<rparr>) h' s)
   \<and> (Method req = ''tools/call'' \<and> parseToolCallParams (Params req) = Inr tp \<and>
        CallTool (toolHandler srv) tp h = (Inr v, h') \<longrightarrow>
      HandleRequest srv (Sender rs) req (h, s) =
        sending (SendResponse rs \<lparr> respJSONRPC = ''2.0'', respID = ID req, Result = Some (Verbatim v), Error = None \<rparr>) h' s)
   \<and> (Method req = ''resources/read'' \<and> parseResourceParams (Params req) = Inr rp \<and>
        ReadResource (resourceHandler srv) rp h = (Inr v, h') \<longrightarrow>
      HandleRequest srv (Sender rs) req (h, s) =
        sending (SendResponse rs \<lparr> respJSONRPC = ''2.0'', respID = ID req, Result = Some (Verbatim v), Error = None \<rparr>) h' s)
   \<and> (Method req = ''prompts/get'' \<and> parsePromptParams (Params req) = Inr pp \<and>
        GetPrompt (promptHandler srv) pp h = (Inr v, h') \<longrightarrow>
      HandleRequest srv (Sender rs) req (h, s) =
        sending (SendResponse rs \<lparr> respJSONRPC = ''2.0'', respID = ID req, Result = Some (Verbatim v), Error = None \<rparr>) h' s)"
  using HandleRequest_initialize [of req srv rs h s] HandleRequest_ping [of req srv rs h s]
    HandleRequest_list_methods [of req srv h vs h' rs s]
    HandleRequest_tools_call [of req srv rs h s]
    HandleRequest_resources_read [of req srv rs h s]
    HandleRequest_prompts_get [of req srv rs h s]
  by auto

text \<open>
  Claim C1. Whatever sender is active, a dispatch ends in exactly one call of it. The call
  is either \<open>SendResponse\<close> with a response that carries the version tag "2.0", the id
  of the request unchanged, a result and no error, or \<open>SendError\<close> with the id of the
  request unchanged. The call is such a \<open>SendResponse\<close> whenever the request succeeds:
  for \<open>initialize\<close> and \<open>ping\<close> always, for a list method when its handler returns a
  list, and for \<open>tools/call\<close>, \<open>resources/read\<close> and \<open>prompts/get\<close> when the
  parameters are extracted and the handler returns a value. Each of the three senders
  turns a \<open>SendError\<close> into the response with the version tag, that same id, an error and
  no result, and sends it as it sends any response.
\<close>

theorem C1_response_echoes_request_id:
  fixes rs :: "('v, 's) ResponseSender"
  shows "((\<exists>h' r. (\<forall>(rs :: ('v, 's) ResponseSender) s.
           HandleRequest srv (Sender rs) req (h, s) = sending (SendResponse rs r) h' s) \<and>
        respJSONRPC r = ''2.0'' \<and> respID r = ID req \<and>
        (\<exists>res. Result r = Some res) \<and> Error r = None)
    \<or> (\<exists>h' code message data'.
          \<forall>(rs :: ('v, 's) ResponseSender) s. HandleRequest srv (Sender rs) req (h, s) =
            sending (SendError rs (ID req) code message data') h' s))
   \<and> (Method req = ''initialize'' \<longrightarrow>
      (\<exists>x. Initialize srv = Inr x \<and>
         HandleRequest srv (Sender rs) req (h, s) =
           sending (SendResponse rs \<lparr> respJSONRPC = ''2.0'', respID = ID req, Result = Some (InitializeResult x), Error = None \<rparr>) h s))
   \<and> (Method req = ''ping'' \<longrightarrow>
      HandleRequest srv (Sender rs) req (h, s) =
        sending (SendResponse rs \<lparr> respJSONRPC = ''2.0'', respID = ID req, Result = Some (EmptyObject), Error = None \<rparr>) h s)
   \<and> (Method req = ''tools/list'' \<and> ListTools (toolHandler srv) h = (Inr vs, h') \<longrightarrow>
      HandleRequest srv (Sender rs) req (h, s) =
        sending (SendResponse rs \<lparr> respJSONRPC = ''2.0'', respID = ID req, Result = Some (Keyed ''tools'' vs), Error = None \<rparr>) h' s)
   \<and> (Method req = ''resources/list'' \<and> ListResources (resourceHandler srv) h = (Inr vs, h') \<longrightarrow>
      HandleRequest srv (Sender rs) req (h, s) =
        sending (SendResponse rs \<lparr> respJSONRPC = ''2.0'', respID = ID req, Result = Some (Keyed ''resources'' vs), Error = None \<rparr>) h' s)
   \<and> (Method req = ''resources/templates/list'' \<and> ListResourceTemplates (resourceHandler srv) h = (Inr vs, h') \<longrightarrow>
      HandleRequest srv (Sender rs) req (h, s) =
        sending (SendResponse rs \<lparr> respJSONRPC = ''2.0'', respID = ID req, Result = Some (Keyed ''resourceTemplates'' vs), Error = None \<rparr>) h' s)
   \<and> (Method req = ''prompts/list'' \<and> ListPrompts (promptHandler srv) h = (Inr vs, h') \<longrightarrow>
      HandleRequest srv (Sender rs) req (h, s) =
        sending (SendResponse rs \<lparr> respJSONRPC = ''2.0'', respID = ID req, Result = Some (Keyed ''prompts'' vs), Error = None \<rparr>) h' s)
   \<and> (Method req = ''tools/call'' \<and> parseToolCallParams (Params req) = Inr tp \<and>
        CallTool (toolHandler srv) tp h = (Inr v, h') \<longrightarrow>
      HandleRequest srv (Sender rs) req (h, s) =
        sending (SendResponse rs \<lparr> respJSONRPC = ''2.0'', respID = ID req, Result = Some (Verbatim v), Error = None \<rparr>) h' s)
   \<and> (Method req = ''resources/read'' \<and> parseResourceParams (Params req) = Inr rp \<and>
        ReadResource (resourceHandler srv) rp h = (Inr v, h') \<longrightarrow>
      HandleRequest srv (Sender rs) req (h, s) =
        sending (SendResponse rs \<lparr> respJSONRPC = ''2.0'', respID = ID req, Result = Some (Verbatim v), Error = None \<rparr>) h' s)
   \<and> (Method req = ''prompts/get'' \<and> parsePromptParams (Params req) = Inr pp \<and>
        GetPrompt (promptHandler srv) pp h = (Inr v, h') \<longrightarrow>
      HandleRequest srv (Sender rs) req (h, s) =
        sending (SendResponse rs \<lparr> respJSONRPC = ''2.0'', respID = ID req, Result = Some (Verbatim v), Error = None \<rparr>) h' s)
   \<and> SendError (StdoutSender J) i c m d =
       SendResponse (StdoutSender J)
         \<lparr> respJSONRPC = ''2.0'', respID = i, Result = None,
           Error = Some \<lparr> Code = c, Message = m, Data = d \<rparr> \<rparr>
   \<and> SendError (HTTPResponseSender_at J p) i c m d =
       SendResponse (HTTPResponseSender_at J p)
         \<lparr> respJSONRPC = ''2.0'', respID = i, Result = None,
           Error = Some \<lparr> Code = c, Message = m, Data = d \<rparr> \<rparr>
   \<and> SendError (SSEResponseSender_at J p) i c m d =
       SendResponse (SSEResponseSender_at J p)
         \<lparr> respJSONRPC = ''2.0'', respID = i, Result = None,
           Error = Some \<lparr> Code = c, Message = m, Data = d \<rparr> \<rparr>"
proof -
  have "one_reply (ID req) (\<lambda>(rs :: ('v, 's) ResponseSender) s.
           HandleRequest srv (Sender rs) req (h, s))"
    by (rule HandleRequest_reply)
  then have shape: "((\<exists>h' r. (\<forall>(rs :: ('v, 's) ResponseSender) s.
           HandleRequest srv (Sender rs) req (h, s) = sending (SendResponse rs r) h' s) \<and>
        respJSONRPC r = ''2.0'' \<and> respID r = ID req \<and>
        (\<exists>res. Result r = Some res) \<and> Error r = None)
    \<or> (\<exists>h' code message data'.
          \<forall>(rs :: ('v, 's) ResponseSender) s. HandleRequest srv (Sender rs) req (h, s) =
            sending (SendError rs (ID req) code message data') h' s))"
    unfolding one_reply_def not_None_eq .
  show ?thesis
    by (intro conjI shape StdoutSender_SendError_eq HTTPResponseSender_SendError_eq
        SSEResponseSender_SendError_eq)
      (insert HandleRequest_success_cases [of req srv rs h s vs h' tp v rp pp], simp_all)
qed

subsection \<open>Call, read and get\<close>

text \<open>
  Claim C3. For \<open>tools/call\<close>, \<open>resources/read\<close> and \<open>prompts/get\<close>: when parameter
  extraction fails the dispatcher calls \<open>SendError\<close> with code -32602 and the id of the
  request; when extraction succeeds and the handler fails it calls \<open>SendError\<close> with
  code -32602 again; when the handler succeeds it calls \<open>SendResponse\<close> with the
  handler's value, as it is, for result. Extraction fails exactly when the parameters are
  nil, not an object, or lack a string under \<open>name\<close> (tool calls, prompt fetches) or
  \<open>uri\<close> (resource reads).
\<close>

theorem C3_call_methods_report_invalid_params:
  "(Method req = ''tools/call'' \<longrightarrow>
      HandleRequest srv (Sender rs) req (h, s) =
        (case parseToolCallParams (Params req) of
           Inl err \<Rightarrow>
             sending (SendError rs (ID req) (- 32602) ''Invalid tool call parameters'' (JStr err)) h s
         | Inr params \<Rightarrow>
             (case CallTool (toolHandler srv) params h of
                (Inl err, h') \<Rightarrow>
                  sending (SendError rs (ID req) (- 32602) (''Tool call failed: '' @ err) JNull) h' s
              | (Inr v, h') \<Rightarrow>
                  sending (SendResponse rs \<lparr> respJSONRPC = ''2.0'', respID = ID req,
                                            Result = Some (Verbatim v), Error = None \<rparr>) h' s)))
   \<and> (Method req = ''resources/read'' \<longrightarrow>
      HandleRequest srv (Sender rs) req (h, s) =
        (case parseResourceParams (Params req) of
           Inl err \<Rightarrow>
             sending (SendError rs (ID req) (- 32602) ''Invalid resource read parameters'' (JStr err)) h s
         | Inr params \<Rightarrow>
             (case ReadResource (resourceHandler srv) params h of
                (Inl err, h') \<Rightarrow>
                  sending (SendError rs (ID req) (- 32602) (''Resource read failed: '' @ err) JNull) h' s
              | (Inr v, h') \<Rightarrow>
                  sending (SendResponse rs \<lparr> respJSONRPC = ''2.0'', respID = ID req,
                                            Result = Some (Verbatim v), Error = None \<rparr>) h' s)))
   \<and> (Method req = ''prompts/get'' \<longrightarrow>
      HandleRequest srv (Sender rs) req (h, s) =
        (case parsePromptParams (Params req) of
           Inl err \<Rightarrow>
             sending (SendError rs (ID req) (- 32602) ''Invalid prompt parameters'' (JStr err)) h s
         | Inr params \<Rightarrow>
             (case GetPrompt (promptHandler srv) params h of
                (Inl err, h') \<Rightarrow>
                  sending (SendError rs (ID req) (- 32602) (''Prompt call failed: '' @ err) JNull) h' s
              | (Inr v, h') \<Rightarrow>
                  sending (SendResponse rs \<lparr> respJSONRPC = ''2.0'', respID = ID req,
                                            Result = Some (Verbatim v), Error = None \<rparr>) h' s)))
   \<and> ((\<exists>err. parseToolCallParams params = Inl err) \<longleftrightarrow> required_string params ''name'' = None)
   \<and> ((\<exists>err. parseResourceParams params = Inl err) \<longleftrightarrow> required_string params ''uri'' = None)
   \<and> ((\<exists>err. parsePromptParams params = Inl err) \<longleftrightarrow> required_string params ''name'' = None)"
  using HandleRequest_tools_call [of req srv rs h s]
    HandleRequest_resources_read [of req srv rs h s]
    HandleRequest_prompts_get [of req srv rs h s]
    parseToolCallParams_fails [of params] parseResourceParams_fails [of params]
    parsePromptParams_fails [of params]
  by blast


text \<open>Each branch of C3 on the example server, with the recording sender.\<close>

theorem C3_call_methods_witness:
  "HandleRequest example_server (Sender recorder)
       (example_tool_call (JObj [(''arguments'', JObj [])])) (0, []) =
     (None, (0, [\<lparr> respJSONRPC = ''2.0'', respID = JNum 1, Result = None,
                    Error = Some \<lparr> Code = - 32602, Message = ''Invalid tool call parameters'',
                      Data = JStr ''name parameter is required and must be a string'' \<rparr> \<rparr>]))
   \<and> HandleRequest example_server (Sender recorder)
       (example_tool_call (JObj [(''name'', JStr ''brew'')])) (0, []) =
     (None, (1, [\<lparr> respJSONRPC = ''2.0'', respID = JNum 1, Result = None,
                    Error = Some \<lparr> Code = - 32602,
                      Message = ''Tool call failed: unknown tool: brew'', Data = JNull \<rparr> \<rparr>]))
   \<and> HandleRequest example_server (Sender recorder)
       (example_tool_call (JObj [(''name'', JStr ''getTeaNames'')])) (0, []) =
     (None, (1, [\<lparr> respJSONRPC = ''2.0'', respID = JNum 1,
                    Result = Some (Verbatim ''earl-grey''), Error = None \<rparr>]))
   \<and> HandleRequest example_server (Sender recorder) (example_resource_read JNull) (0, []) =
     (None, (0, [\<lparr> respJSONRPC = ''2.0'', respID = JNum 2, Result = None,
                    Error = Some \<lparr> Code = - 32602, Message = ''Invalid resource read parameters'',
                      Data = JStr ''params cannot be nil'' \<rparr> \<rparr>]))
   \<and> HandleRequest example_server (Sender recorder)
       (example_prompt_get (JObj [(''name'', JStr ''brewing_guide'')])) (0, []) =
     (None, (1, [\<lparr> respJSONRPC = ''2.0'', respID = JStr ''p-3'',
                    Result = Some (Verbatim ''guide''), Error = None \<rparr>]))"
  using
    C3_call_methods_report_invalid_params
      [of "example_tool_call (JObj [(''arguments'', JObj [])])" example_server recorder 0 "[]" JNull]
    C3_call_methods_report_invalid_params
      [of "example_tool_call (JObj [(''name'', JStr ''brew'')])" example_server recorder 0 "[]" JNull]
    C3_call_methods_report_invalid_params
      [of "example_tool_call (JObj [(''name'', JStr ''getTeaNames'')])" example_server recorder 0 "[]"
        JNull]
    C3_call_methods_report_invalid_params
      [of "example_resource_read JNull" example_server recorder 0 "[]" JNull]
    C3_call_methods_report_invalid_params
      [of "example_prompt_get (JObj [(''name'', JStr ''brewing_guide'')])" example_server recorder 0
        "[]" JNull]
  by (simp add: example_tool_call_def example_resource_read_def example_prompt_get_def
      example_server_def recorder_def parseToolCallParams_def parseResourceParams_def
      parsePromptParams_def sending_def JSONRPCVersion_def)

text \<open>C1 on a \<open>ping\<close> with id 7.\<close>

theorem C1_response_witness:
  "((\<exists>h' r. (\<forall>(rs :: (string, string Response list) ResponseSender) s.
           HandleRequest example_server (Sender rs) example_ping (0, s) =
             sending (SendResponse rs r) h' s) \<and>
        respJSONRPC r = ''2.0'' \<and> respID r = JNum 7 \<and>
        (\<exists>res. Result r = Some res) \<and> Error r = None)
    \<or> (\<exists>h' code message data'.
          \<forall>(rs :: (string, string Response list) ResponseSender) s.
            HandleRequest example_server (Sender rs) example_ping (0, s) =
              sending (SendError rs (JNum 7) code message data') h' s))
   \<and> HandleRequest example_server (Sender recorder) example_ping (0, []) =
       (None, (0, [\<lparr> respJSONRPC = ''2.0'', respID = JNum 7, Result = Some EmptyObject,
                      Error = None \<rparr>]))"
proof -
  have run: "HandleRequest example_server (Sender recorder) example_ping (0::nat, []) =
       (None, (0, [\<lparr> respJSONRPC = ''2.0'', respID = JNum 7, Result = Some EmptyObject,
                      Error = None \<rparr>]))"
    unfolding HandleRequest_def handlePing_def sendResponse_def sendResponseDirect_def
    by (simp add: example_ping_def recorder_def sending_def JSONRPCVersion_def)
  have i: "ID example_ping = JNum 7"
    by (simp add: example_ping_def)
  note shape =
    C1_response_echoes_request_id
      [where 's = "string Response list" and srv = example_server and req = example_ping and h = 0,
        THEN conjunct1, unfolded i]
  show ?thesis
    by (rule conjI) (rule shape, rule run)
qed

subsection \<open>Arguments of the wrong type\<close>

text \<open>
  Claim C10. In the extraction for \<open>tools/call\<close> and \<open>prompts/get\<close>, an \<open>arguments\<close>
  value that is present but not an object does not fail the extraction: the arguments are
  the empty map. Extraction fails only for parameters that are not an object or have no
  string under \<open>name\<close>.
\<close>

theorem C10_mistyped_arguments_are_dropped:
  "(map_of m ''name'' = Some (JStr name) \<and> map_of m ''arguments'' = Some v \<and> (\<forall>a. v \<noteq> JObj a) \<longrightarrow>
      parseToolCallParams (JObj m) = Inr \<lparr> toolName = name, toolArguments = [] \<rparr> \<and>
      parsePromptParams (JObj m) = Inr \<lparr> promptName = name, promptArguments = [] \<rparr>)
   \<and> ((\<exists>err. parseToolCallParams params = Inl err) \<longleftrightarrow> required_string params ''name'' = None)
   \<and> ((\<exists>err. parsePromptParams params = Inl err) \<longleftrightarrow> required_string params ''name'' = None)"
proof -
  have "parseToolCallParams (JObj m) = Inr \<lparr> toolName = name, toolArguments = [] \<rparr> \<and>
      parsePromptParams (JObj m) = Inr \<lparr> promptName = name, promptArguments = [] \<rparr>"
    if "map_of m ''name'' = Some (JStr name)" "map_of m ''arguments'' = Some v" "\<forall>a. v \<noteq> JObj a"
    using that by (cases v) (simp_all add: parseToolCallParams_def parsePromptParams_def)
  then show ?thesis
    using parseToolCallParams_fails [of params] parsePromptParams_fails [of params] by blast
qed

text \<open>C10 on \<open>{"name": "getTeaNames", "arguments": "oops"}\<close>.\<close>

theorem C10_mistyped_arguments_witness:
  "parseToolCallParams (JObj [(''name'', JStr ''getTeaNames''), (''arguments'', JStr ''oops'')]) =
     Inr \<lparr> toolName = ''getTeaNames'', toolArguments = [] \<rparr>
   \<and> parsePromptParams (JObj [(''name'', JStr ''getTeaNames''), (''arguments'', JStr ''oops'')]) =
     Inr \<lparr> promptName = ''getTeaNames'', promptArguments = [] \<rparr>
   \<and> (\<exists>err. parseToolCallParams (JObj [(''arguments'', JArr [])]) = Inl err)"
  using
    C10_mistyped_arguments_are_dropped
      [of "[(''name'', JStr ''getTeaNames''), (''arguments'', JStr ''oops'')]" "''getTeaNames''"
        "JStr ''oops''" "JObj [(''arguments'', JArr [])]"]
  by (simp add: required_string_def)

subsection \<open>Stdio: lines that do not decode\<close>

lemma Marshal_error_response [simp]:
  "Marshal J (WResponse \<lparr> respJSONRPC = v, respID = i, Result = None, Error = e \<rparr>) =
     Inr (encode J (WResponse \<lparr> respJSONRPC = v, respID = i, Result = None, Error = e \<rparr>))"
  by (simp add: Marshal_def)

lemma handleMessage_notification:
  "Unmarshal_Request J line = Inr req \<Longrightarrow> ID req = JNull \<Longrightarrow>
   handleMessage J srv line st = (None, st)"
  by (simp add: handleMessage_def)

lemma handleMessage_wrong_version:
  "Unmarshal_Request J line = Inr req \<Longrightarrow> JSONRPC req \<noteq> ''2.0'' \<Longrightarrow>
   handleMessage J srv line st = (None, st)"
  by (simp add: handleMessage_def JSONRPCVersion_def)





subsection \<open>HTTP: errors written by the transport\<close>

lemma HTTPTransport_sendError_eq:
  "HTTPTransport_sendError J w i c m d t =
     t\<lparr> writerAt := (writerAt t)
          (w := Write (encode J (WResponse
                   \<lparr> respJSONRPC = ''2.0'', respID = i, Result = None,
                     Error = Some \<lparr> Code = c, Message = m, Data = d \<rparr> \<rparr>) @ NL)
                  (WriteHeader 400
                     (Header_Set ''Content-Type'' ''application/json; charset=utf-8''
                        (writerAt t w)))) \<rparr>"
  by (simp add: HTTPTransport_sendError_def Encode_def onWriter_def JSONRPCVersion_def
      StatusBadRequest_def contentTypeJSON_def)

lemma handlePost_notification:
  assumes "Decode_Request J (reqBody r) = Inr req" and "ID req = JNull"
    and "Contains (Accept r) ''application/json'' \<or> Contains (Accept r) ''text/event-stream''"
    and "JSONRPC req = ''2.0''"
  shows "handlePost J srv clk w r (h, t) =
      (h, t\<lparr> writerAt := (writerAt t)(w := WriteHeader 204 (writerAt t w)) \<rparr>)"
  using assms
  by (auto simp: handlePost_def JSONRPCVersion_def onWriter_def StatusNoContent_def Let_def)

lemma handlePost_notification_refused:
  assumes "Decode_Request J (reqBody r) = Inr req" and "ID req = JNull"
    and "\<not> (Contains (Accept r) ''application/json'' \<or> Contains (Accept r) ''text/event-stream'')
         \<or> JSONRPC req \<noteq> ''2.0''"
  shows "\<exists>m. handlePost J srv clk w r (h, t) =
      (h, HTTPTransport_sendError J w JNull (- 32600) m JNull t)"
  using assms
  by (auto simp: handlePost_def JSONRPCVersion_def ErrorCodeInvalidRequest_def Let_def)

lemma handlePost_wrong_version:
  assumes "Decode_Request J (reqBody r) = Inr req" and "JSONRPC req \<noteq> ''2.0''"
  shows "\<exists>m. handlePost J srv clk w r (h, t) =
      (h, HTTPTransport_sendError J w (ID req) (- 32600) m JNull t)"
  using assms
  by (auto simp: handlePost_def JSONRPCVersion_def ErrorCodeInvalidRequest_def Let_def)


subsection \<open>Notifications\<close>

text \<open>
  Claim C2, amended. For every decoded message whose id is null: on stdio nothing is
  written and neither a handler nor a sender is called (the handler state and standard
  output stay as they were), whatever the method and the version tag. On HTTP, when the
  \<open>Accept\<close> header names \<open>application/json\<close> or \<open>text/event-stream\<close> and the version
  tag is "2.0", the handler only writes the status 204: no body, no session, no handler
  and no sender, whatever the method. When the \<open>Accept\<close> header names neither or the
  version tag is another one, the HTTP transport answers the notification with status
  400 and an invalid-request error body whose id is null.
\<close>

theorem C2_notifications_get_no_response:
  "(Unmarshal_Request J line = Inr req \<and> ID req = JNull \<longrightarrow>
      handleMessage J srv line (h, out) = (None, (h, out)))
   \<and> (Decode_Request J (reqBody r) = Inr req' \<and> ID req' = JNull \<and>
        (Contains (Accept r) ''application/json'' \<or> Contains (Accept r) ''text/event-stream'') \<and>
        JSONRPC req' = ''2.0'' \<longrightarrow>
      handlePost J srv clk w r (h, t) =
        (h, t\<lparr> writerAt := (writerAt t)(w := WriteHeader 204 (writerAt t w)) \<rparr>) \<and>
      Body (WriteHeader 204 (writerAt t w)) = Body (writerAt t w))
   \<and> (Decode_Request J (reqBody r) = Inr req' \<and> ID req' = JNull \<and>
        (\<not> (Contains (Accept r) ''application/json'' \<or> Contains (Accept r) ''text/event-stream'') \<or>
         JSONRPC req' \<noteq> ''2.0'') \<longrightarrow>
      (\<exists>m. handlePost J srv clk w r (h, t) =
         (h, t\<lparr> writerAt := (writerAt t)
                 (w := Write (encode J (WResponse
                          \<lparr> respJSONRPC = ''2.0'', respID = JNull, Result = None,
                            Error = Some \<lparr> Code = - 32600, Message = m, Data = JNull \<rparr> \<rparr>) @ NL)
                         (WriteHeader 400
                            (Header_Set ''Content-Type'' ''application/json; charset=utf-8''
                               (writerAt t w)))) \<rparr>)))"
proof (intro conjI impI)
  assume "Unmarshal_Request J line = Inr req \<and> ID req = JNull"
  then show "handleMessage J srv line (h, out) = (None, (h, out))"
    by (simp add: handleMessage_notification)
next
  assume a: "Decode_Request J (reqBody r) = Inr req' \<and> ID req' = JNull \<and>
        (Contains (Accept r) ''application/json'' \<or> Contains (Accept r) ''text/event-stream'') \<and>
        JSONRPC req' = ''2.0''"
  then show "handlePost J srv clk w r (h, t) =
        (h, t\<lparr> writerAt := (writerAt t)(w := WriteHeader 204 (writerAt t w)) \<rparr>)"
    by (blast intro: handlePost_notification)
  show "Body (WriteHeader 204 (writerAt t w)) = Body (writerAt t w)"
    by (simp add: WriteHeader_def)
next
  assume a: "Decode_Request J (reqBody r) = Inr req' \<and> ID req' = JNull \<and>
        (\<not> (Contains (Accept r) ''application/json'' \<or> Contains (Accept r) ''text/event-stream'') \<or>
         JSONRPC req' \<noteq> ''2.0'')"
  then have "\<exists>m. handlePost J srv clk w r (h, t) =
      (h, HTTPTransport_sendError J w JNull (- 32600) m JNull t)"
    by (blast intro: handlePost_notification_refused)
  then show "\<exists>m. handlePost J srv clk w r (h, t) =
         (h, t\<lparr> writerAt := (writerAt t)
                 (w := Write (encode J (WResponse
                          \<lparr> respJSONRPC = ''2.0'', respID = JNull, Result = None,
                            Error = Some \<lparr> Code = - 32600, Message = m, Data = JNull \<rparr> \<rparr>) @ NL)
                         (WriteHeader 400
                            (Header_Set ''Content-Type'' ''application/json; charset=utf-8''
                               (writerAt t w)))) \<rparr>)"
    by (simp only: HTTPTransport_sendError_eq)
qed

text \<open>What the example codec does with the example lines.\<close>

lemma example_decode_notification:
  "Decode_Request example_codec example_line_notification =
     Inr \<lparr> JSONRPC = ''2.0'', Method = ''notifications/initialized'', ID = JNull, Params = JNull \<rparr>"
  "Unmarshal_Request example_codec example_line_notification =
     Inr \<lparr> JSONRPC = ''2.0'', Method = ''notifications/initialized'', ID = JNull, Params = JNull \<rparr>"
  by (simp_all add: example_codec_def example_requests_def example_line_notification_def)

lemma example_decode_old_version:
  "Decode_Request example_codec example_line_old_version =
     Inr \<lparr> JSONRPC = ''1.0'', Method = ''ping'', ID = JNum 7, Params = JNull \<rparr>"
  "Unmarshal_Request example_codec example_line_old_version =
     Inr \<lparr> JSONRPC = ''1.0'', Method = ''ping'', ID = JNum 7, Params = JNull \<rparr>"
  by (simp_all add: example_codec_def example_requests_def example_line_old_version_def)

lemma example_encode_error:
  "encode example_codec (WResponse \<lparr> respJSONRPC = v, respID = JNull, Result = None,
      Error = Some \<lparr> Code = - 32600, Message = m, Data = d \<rparr> \<rparr>) = ''id=null error=-32600''"
  "encode example_codec (WResponse \<lparr> respJSONRPC = v, respID = JNum 7, Result = None,
      Error = Some \<lparr> Code = - 32600, Message = m, Data = d \<rparr> \<rparr>) = ''id=7 error=-32600''"
  by (simp_all add: example_codec_def example_encode_def example_show_id_def itoa_def digits.simps)

text \<open>
  Claim C2 as stated fails on HTTP: a well-formed notification posted with the header
  \<open>Accept: text/html\<close> is answered with status 400 and an error body.
\<close>

theorem C2_http_notification_counterexample:
  "ID \<lparr> JSONRPC = ''2.0'', Method = ''notifications/initialized'', ID = JNull, Params = JNull \<rparr> = JNull
   \<and> Decode_Request example_codec (reqBody (example_post ''text/html'' example_line_notification)) =
       Inr \<lparr> JSONRPC = ''2.0'', Method = ''notifications/initialized'', ID = JNull, Params = JNull \<rparr>
   \<and> Status (writerAt (snd (handlePost example_codec example_server example_clock 0
         (example_post ''text/html'' example_line_notification) (0, example_transport))) 0) = Some 400
   \<and> Body (writerAt (snd (handlePost example_codec example_server example_clock 0
         (example_post ''text/html'' example_line_notification) (0, example_transport))) 0) =
       [''id=null error=-32600'' @ NL]"
  by (simp add: handlePost_def example_post_def example_decode_notification
      HTTPTransport_sendError_eq example_encode_error example_transport_def example_writer_def
      Write_def WriteHeader_def Header_Set_def StatusOK_def ErrorCodeInvalidRequest_def)

text \<open>C2 on the notification \<open>notifications/initialized\<close>, on stdio and posted as JSON.\<close>

theorem C2_notifications_witness:
  "handleMessage example_codec example_server example_line_notification (0, []) = (None, (0, []))
   \<and> fst (handlePost example_codec example_server example_clock 0
         (example_post ''application/json'' example_line_notification) (0, example_transport)) = 0
   \<and> Status (writerAt (snd (handlePost example_codec example_server example_clock 0
         (example_post ''application/json'' example_line_notification) (0, example_transport))) 0) =
       Some 204
   \<and> Body (writerAt (snd (handlePost example_codec example_server example_clock 0
         (example_post ''application/json'' example_line_notification) (0, example_transport))) 0) = []"
  using
    C2_notifications_get_no_response
      [of example_codec example_line_notification
        "\<lparr> JSONRPC = ''2.0'', Method = ''notifications/initialized'', ID = JNull, Params = JNull \<rparr>"
        example_server 0 "[]" "example_post ''application/json'' example_line_notification"
        "\<lparr> JSONRPC = ''2.0'', Method = ''notifications/initialized'', ID = JNull, Params = JNull \<rparr>"
        example_clock 0 example_transport]
  by (simp add: example_decode_notification example_post_def example_transport_def
      example_writer_def WriteHeader_def)

subsection \<open>The version tag\<close>

text \<open>
  Claim C6, amended. A decoded request whose version tag is not "2.0" never reaches a
  method handler on either transport (the handler state stays as it was). The HTTP
  transport answers it with status 400 and an error response with code -32600 (invalid
  request) and the id of the request. The stdio transport writes nothing for it: the
  rejection is only logged.
\<close>

theorem C6_wrong_version_is_rejected:
  "(Unmarshal_Request J line = Inr req \<and> JSONRPC req \<noteq> ''2.0'' \<longrightarrow>
      handleMessage J srv line (h, out) = (None, (h, out)))
   \<and> (Decode_Request J (reqBody r) = Inr req' \<and> JSONRPC req' \<noteq> ''2.0'' \<longrightarrow>
      (\<exists>m. handlePost J srv clk w r (h, t) =
         (h, t\<lparr> writerAt := (writerAt t)
                 (w := Write (encode J (WResponse
                          \<lparr> respJSONRPC = ''2.0'', respID = ID req', Result = None,
                            Error = Some \<lparr> Code = - 32600, Message = m, Data = JNull \<rparr> \<rparr>) @ NL)
                         (WriteHeader 400
                            (Header_Set ''Content-Type'' ''application/json; charset=utf-8''
                               (writerAt t w)))) \<rparr>)))"
proof (intro conjI impI)
  assume "Unmarshal_Request J line = Inr req \<and> JSONRPC req \<noteq> ''2.0''"
  then show "handleMessage J srv line (h, out) = (None, (h, out))"
    by (simp add: handleMessage_wrong_version)
next
  assume "Decode_Request J (reqBody r) = Inr req' \<and> JSONRPC req' \<noteq> ''2.0''"
  then have "\<exists>m. handlePost J srv clk w r (h, t) =
      (h, HTTPTransport_sendError J w (ID req') (- 32600) m JNull t)"
    by (blast intro: handlePost_wrong_version)
  then show "\<exists>m. handlePost J srv clk w r (h, t) =
         (h, t\<lparr> writerAt := (writerAt t)
                 (w := Write (encode J (WResponse
                          \<lparr> respJSONRPC = ''2.0'', respID = ID req', Result = None,
                            Error = Some \<lparr> Code = - 32600, Message = m, Data = JNull \<rparr> \<rparr>) @ NL)
                         (WriteHeader 400
                            (Header_Set ''Content-Type'' ''application/json; charset=utf-8''
                               (writerAt t w)))) \<rparr>)"
    by (simp only: HTTPTransport_sendError_eq)
qed

text \<open>
  Claim C6 as stated fails on stdio: a request with id 7 and version tag "1.0" produces
  no line at all, so no error response.
\<close>

theorem C6_stdio_wrong_version_counterexample:
  "Unmarshal_Request example_codec example_line_old_version =
     Inr \<lparr> JSONRPC = ''1.0'', Method = ''ping'', ID = JNum 7, Params = JNull \<rparr>
   \<and> handleMessage example_codec example_server example_line_old_version (0, []) = (None, (0, []))"
  by (simp add: handleMessage_def example_decode_old_version JSONRPCVersion_def)

text \<open>C6 on a \<open>ping\<close> with version tag "1.0", on stdio and posted as JSON.\<close>

theorem C6_wrong_version_witness:
  "handleMessage example_codec example_server example_line_old_version (0, []) = (None, (0, []))
   \<and> fst (handlePost example_codec example_server example_clock 0
         (example_post ''application/json'' example_line_old_version) (0, example_transport)) = 0
   \<and> Status (writerAt (snd (handlePost example_codec example_server example_clock 0
         (example_post ''application/json'' example_line_old_version) (0, example_transport))) 0) =
       Some 400
   \<and> Body (writerAt (snd (handlePost example_codec example_server example_clock 0
         (example_post ''application/json'' example_line_old_version) (0, example_transport))) 0) =
       [''id=7 error=-32600'' @ NL]"
  using
    C6_wrong_version_is_rejected
      [of example_codec example_line_old_version
        "\<lparr> JSONRPC = ''1.0'', Method = ''ping'', ID = JNum 7, Params = JNull \<rparr>"
        example_server 0 "[]" "example_post ''application/json'' example_line_old_version"
        "\<lparr> JSONRPC = ''1.0'', Method = ''ping'', ID = JNum 7, Params = JNull \<rparr>"
        example_clock 0 example_transport]
  by (auto simp: example_decode_old_version example_post_def example_transport_def
      example_writer_def WriteHeader_def Write_def Header_Set_def example_encode_error StatusOK_def)

subsection \<open>Direct senders\<close>

lemma HTTPResponseSender_already_sent:
  "sent (senderAt t p) \<Longrightarrow>
   HTTPResponseSender_SendResponse J p response t = (Some ''response already sent'', t)"
  "sent (senderAt t p) \<Longrightarrow>
   HTTPResponseSender_SendError J p i c m d t = (Some ''response already sent'', t)"
  by (simp_all add: HTTPResponseSender_SendResponse_def HTTPResponseSender_SendError_def)

lemma HTTPResponseSender_first_send:
  assumes "\<not> sent (senderAt t p)"
    and "HTTPResponseSender_SendResponse J p response t = (err, t')"
  shows "sent (senderAt t' p)"
    and "Marshal J (WResponse response) = Inr b \<Longrightarrow>
         err = None \<and>
         Body (writerAt t' (senderWriter (senderAt t p))) =
           Body (writerAt t (senderWriter (senderAt t p))) @ [b @ NL]"
    and "Marshal J (WResponse response) = Inl e \<Longrightarrow>
         err = Some e \<and>
         Body (writerAt t' (senderWriter (senderAt t p))) =
           Body (writerAt t (senderWriter (senderAt t p)))"
  using assms
  by (auto simp: HTTPResponseSender_SendResponse_def Encode_def onWriter_def Let_def
      Write_def WriteHeader_def Header_Set_def split: sum.splits)


text \<open>
  Claim C5, amended. On a fresh HTTP direct sender the first \<open>SendResponse\<close> writes
  exactly one response body (or, when the result does not encode, no body and the
  encoder's error), the first \<open>SendError\<close> writes exactly one error response, and every
  later \<open>SendResponse\<close> or \<open>SendError\<close> on that sender fails with "response already
  sent" and changes nothing. The stdout sender keeps no such state: every \<open>SendError\<close>,
  and every \<open>SendResponse\<close> that encodes, prints one more line, whatever was printed
  before.
\<close>

theorem C5_http_sender_sends_once:
  "(\<not> sent (senderAt t p) \<and> HTTPResponseSender_SendResponse J p response t = (err, t') \<longrightarrow>
      (case Marshal J (WResponse response) of
         Inr b \<Rightarrow>
           err = None \<and>
           Body (writerAt t' (senderWriter (senderAt t p))) =
             Body (writerAt t (senderWriter (senderAt t p))) @ [b @ NL]
       | Inl e \<Rightarrow>
           err = Some e \<and>
           Body (writerAt t' (senderWriter (senderAt t p))) =
             Body (writerAt t (senderWriter (senderAt t p)))) \<and>
      HTTPResponseSender_SendResponse J p other t' = (Some ''response already sent'', t') \<and>
      HTTPResponseSender_SendError J p i c m d t' = (Some ''response already sent'', t'))
   \<and> (\<not> sent (senderAt t p) \<and> HTTPResponseSender_SendError J p i c m d t = (err, t') \<longrightarrow>
      err = None \<and>
      Body (writerAt t' (senderWriter (senderAt t p))) =
        Body (writerAt t (senderWriter (senderAt t p))) @
        [encode J (WResponse \<lparr> respJSONRPC = ''2.0'', respID = i, Result = None,
                     Error = Some \<lparr> Code = c, Message = m, Data = d \<rparr> \<rparr>) @ NL] \<and>
      HTTPResponseSender_SendResponse J p other t' = (Some ''response already sent'', t') \<and>
      HTTPResponseSender_SendError J p i c m d t' = (Some ''response already sent'', t'))
   \<and> StdoutSender_SendError J i c m d out =
       (None, out @ [encode J (WResponse \<lparr> respJSONRPC = ''2.0'', respID = i, Result = None,
                        Error = Some \<lparr> Code = c, Message = m, Data = d \<rparr> \<rparr>)])
   \<and> (Marshal J (WResponse response) = Inr b \<longrightarrow>
        StdoutSender_SendResponse J response out = (None, out @ [b]))"
proof (intro conjI impI)
  assume a: "\<not> sent (senderAt t p) \<and> HTTPResponseSender_SendResponse J p response t = (err, t')"
  then have s: "sent (senderAt t' p)"
    by (blast intro: HTTPResponseSender_first_send(1))
  from a show "case Marshal J (WResponse response) of
         Inr b \<Rightarrow>
           err = None \<and>
           Body (writerAt t' (senderWriter (senderAt t p))) =
             Body (writerAt t (senderWriter (senderAt t p))) @ [b @ NL]
       | Inl e \<Rightarrow>
           err = Some e \<and>
           Body (writerAt t' (senderWriter (senderAt t p))) =
             Body (writerAt t (senderWriter (senderAt t p)))"
    using HTTPResponseSender_first_send(2,3) [of t p J response err t']
    by (cases "Marshal J (WResponse response)") auto
  from s show "HTTPResponseSender_SendResponse J p other t' = (Some ''response already sent'', t')"
    by (rule HTTPResponseSender_already_sent)
  from s show "HTTPResponseSender_SendError J p i c m d t' = (Some ''response already sent'', t')"
    by (rule HTTPResponseSender_already_sent)
next
  let ?r = "\<lparr> respJSONRPC = ''2.0'', respID = i, Result = None,
              Error = Some \<lparr> Code = c, Message = m, Data = d \<rparr> \<rparr> :: 'a Response"
  assume "\<not> sent (senderAt t p) \<and> HTTPResponseSender_SendError J p i c m d t = (err, t')"
  then have a: "\<not> sent (senderAt t p)"
    and b: "HTTPResponseSender_SendResponse J p ?r t = (err, t')"
    by (simp_all add: HTTPResponseSender_SendError_def JSONRPCVersion_def)
  have m: "Marshal J (WResponse ?r) = Inr (encode J (WResponse ?r))"
    by simp
  from HTTPResponseSender_first_send(2) [OF a b m]
  show "err = None"
    and "Body (writerAt t' (senderWriter (senderAt t p))) =
        Body (writerAt t (senderWriter (senderAt t p))) @ [encode J (WResponse ?r) @ NL]"
    by simp_all
  from HTTPResponseSender_first_send(1) [OF a b]
  show "HTTPResponseSender_SendResponse J p other t' = (Some ''response already sent'', t')"
    and "HTTPResponseSender_SendError J p i c m d t' = (Some ''response already sent'', t')"
    by (simp_all add: HTTPResponseSender_already_sent)
next
  show "StdoutSender_SendError J i c m d out =
       (None, out @ [encode J (WResponse \<lparr> respJSONRPC = ''2.0'', respID = i, Result = None,
                        Error = Some \<lparr> Code = c, Message = m, Data = d \<rparr> \<rparr>)])"
    by (simp add: StdoutSender_SendError_def StdoutSender_SendResponse_def JSONRPCVersion_def)
next
  assume "Marshal J (WResponse response) = Inr b"
  then show "StdoutSender_SendResponse J response out = (None, out @ [b])"
    by (simp add: StdoutSender_SendResponse_def)
qed

lemma example_encode_pong:
  "Marshal example_codec (WResponse example_pong) = Inr ''id=7 result''"
  by (simp add: Marshal_def example_codec_def example_pong_def example_encode_def
      example_show_id_def itoa_def digits.simps)

text \<open>
  Claim C5 as stated fails for the stdout sender: a second \<open>SendResponse\<close> on the same
  sender succeeds and prints a second line.
\<close>

theorem C5_stdout_sender_counterexample:
  "SendResponse (StdoutSender example_codec) example_pong [] = (None, [''id=7 result''])
   \<and> SendResponse (StdoutSender example_codec) example_pong [''id=7 result''] =
       (None, [''id=7 result'', ''id=7 result''])"
  by (simp add: StdoutSender_def StdoutSender_SendResponse_def example_encode_pong)

text \<open>C5 on the example sender: the first send writes, the second is refused.\<close>

theorem C5_http_sender_witness:
  "HTTPResponseSender_SendResponse example_codec 0 example_pong example_transport_with_sender =
     (None, snd (HTTPResponseSender_SendResponse example_codec 0 example_pong
                   example_transport_with_sender))
   \<and> Body (writerAt (snd (HTTPResponseSender_SendResponse example_codec 0 example_pong
                            example_transport_with_sender)) 3) = [''id=7 result'' @ NL]
   \<and> HTTPResponseSender_SendResponse example_codec 0 example_pong
       (snd (HTTPResponseSender_SendResponse example_codec 0 example_pong
               example_transport_with_sender)) =
     (Some ''response already sent'',
      snd (HTTPResponseSender_SendResponse example_codec 0 example_pong
             example_transport_with_sender))
   \<and> StdoutSender_SendResponse example_codec example_pong [''first''] =
       (None, [''first'', ''id=7 result''])"
proof -
  let ?t = example_transport_with_sender
  obtain err t' where
    run: "HTTPResponseSender_SendResponse example_codec 0 example_pong ?t = (err, t')"
    by (cases "HTTPResponseSender_SendResponse example_codec 0 example_pong ?t")
  have fresh: "\<not> sent (senderAt ?t 0)" and w: "senderWriter (senderAt ?t 0) = 3"
    and b: "Body (writerAt ?t 3) = []"
    by (simp_all add: example_transport_with_sender_def example_transport_def example_writer_def)
  from C5_http_sender_sends_once
      [where t = ?t and p = 0 and J = example_codec and response = example_pong and err = err
        and t' = t' and other = example_pong and b = "''id=7 result''" and out = "[''first'']"]
    fresh run w b
  show ?thesis
    by (simp add: example_encode_pong)
qed


subsection \<open>Stopping the HTTP transport\<close>

lemma sendEvent_on_closed:
  "closed (sessionAt t s) \<Longrightarrow> sendEvent J s eventType data' t = (Some ''session closed'', t)"
  by (simp add: sendEvent_def)

lemma close_all_sessions:
  "sessions (fold (\<lambda>(sid, session). SSESession_close session) xs t) = sessions t"
  "writerAt (fold (\<lambda>(sid, session). SSESession_close session) xs t) = writerAt t"
  "closed (sessionAt (fold (\<lambda>(sid, session). SSESession_close session) xs t) p) \<longleftrightarrow>
     closed (sessionAt t p) \<or> p \<in> snd ` set xs"
  by (induction xs arbitrary: t) (auto simp: SSESession_close_def)

lemma Stop_effect:
  "sessions (snd (Stop server t)) = []"
  "writerAt (snd (Stop server t)) = writerAt t"
  "closed (sessionAt (snd (Stop server t)) p) \<longleftrightarrow> closed (sessionAt t p) \<or> p \<in> snd ` set (sessions t)"
  by (simp_all add: Stop_def Let_def close_all_sessions split: option.splits)

text \<open>
  Claim C9. After \<open>Stop\<close> the registry is empty, and every session that was in the
  registry when \<open>Stop\<close> was called is marked closed: every later \<open>sendEvent\<close> or
  \<open>sendError\<close> on it fails with "session closed" and leaves the transport, so also the
  stream, as it is; its id is absent from the registry. \<open>Stop\<close> itself writes to no
  stream.
\<close>

theorem C9_stop_closes_every_registered_session:
  "sessions (snd (Stop server t)) = []
   \<and> writerAt (snd (Stop server t)) = writerAt t
   \<and> (\<forall>(sid, s) \<in> set (sessions t).
        closed (sessionAt (snd (Stop server t)) s) \<and>
        sendEvent J s eventType data' (snd (Stop server t)) =
          (Some ''session closed'', snd (Stop server t)) \<and>
        SSESession_sendError J s i c m d (snd (Stop server t)) =
          (Some ''session closed'', snd (Stop server t)) \<and>
        map_of (sessions (snd (Stop server t))) sid = None)"
proof (intro conjI ballI)
  show "sessions (snd (Stop server t)) = []"
    by (rule Stop_effect)
  show "writerAt (snd (Stop server t)) = writerAt t"
    by (rule Stop_effect)
next
  fix x
  assume x: "x \<in> set (sessions t)"
  obtain sid s where [simp]: "x = (sid, s)"
    by (cases x)
  from x have "s \<in> snd ` set (sessions t)"
    by force
  then have c: "closed (sessionAt (snd (Stop server t)) s)"
    by (simp add: Stop_effect)
  then show "case x of (sid, s) \<Rightarrow>
        closed (sessionAt (snd (Stop server t)) s) \<and>
        sendEvent J s eventType data' (snd (Stop server t)) =
          (Some ''session closed'', snd (Stop server t)) \<and>
        SSESession_sendError J s i c m d (snd (Stop server t)) =
          (Some ''session closed'', snd (Stop server t)) \<and>
        map_of (sessions (snd (Stop server t))) sid = None"
    by (simp add: sendEvent_on_closed SSESession_sendError_def Stop_effect)
qed

text \<open>C9 on the transport with the two sessions \<open>session-a\<close> and \<open>session-b\<close>.\<close>

theorem C9_stop_witness:
  "sessions (snd (Stop (Some None) example_transport_two_sessions)) = []
   \<and> closed (sessionAt (snd (Stop (Some None) example_transport_two_sessions)) 0)
   \<and> closed (sessionAt (snd (Stop (Some None) example_transport_two_sessions)) 1)
   \<and> sendEvent example_codec 0 [] (WResponse example_pong)
       (snd (Stop (Some None) example_transport_two_sessions)) =
     (Some ''session closed'', snd (Stop (Some None) example_transport_two_sessions))
   \<and> Body (writerAt (snd (Stop (Some None) example_transport_two_sessions)) 4) = []"
proof -
  have reg: "(''session-a'', 0) \<in> set (sessions example_transport_two_sessions)"
    "(''session-b'', 1) \<in> set (sessions example_transport_two_sessions)"
    by (simp_all add: example_transport_two_sessions_def)
  have w: "Body (writerAt example_transport_two_sessions 4) = []"
    by (simp add: example_transport_two_sessions_def example_transport_def example_writer_def)
  note stop =
    C9_stop_closes_every_registered_session
      [where server = "Some None" and t = example_transport_two_sessions and J = example_codec
        and eventType = "[]" and data' = "WResponse example_pong"]
  from stop have all: "\<forall>(sid, s) \<in> set (sessions example_transport_two_sessions).
        closed (sessionAt (snd (Stop (Some None) example_transport_two_sessions)) s) \<and>
        sendEvent example_codec s [] (WResponse example_pong)
            (snd (Stop (Some None) example_transport_two_sessions)) =
          (Some ''session closed'', snd (Stop (Some None) example_transport_two_sessions))"
    by fast
  from all reg(1) have a: "closed (sessionAt (snd (Stop (Some None) example_transport_two_sessions)) 0)"
    "sendEvent example_codec 0 [] (WResponse example_pong)
       (snd (Stop (Some None) example_transport_two_sessions)) =
     (Some ''session closed'', snd (Stop (Some None) example_transport_two_sessions))"
    by fast+
  from all reg(2) have b: "closed (sessionAt (snd (Stop (Some None) example_transport_two_sessions)) 1)"
    by fast
  from stop a b w show ?thesis
    by simp
qed

subsection \<open>Event ids of a session\<close>

lemma wrap64_in_range: "- (2 ^ 63) \<le> x \<Longrightarrow> x < 2 ^ 63 \<Longrightarrow> wrap64 x = x"
  by (simp add: wrap64_def)

lemma wrap64_range: "- (2 ^ 63) \<le> wrap64 x" "wrap64 x < 2 ^ 63"
  by (simp_all add: wrap64_def)

lemma wrap64_wrap64 [simp]: "wrap64 (wrap64 x) = wrap64 x"
  by (rule wrap64_in_range) (rule wrap64_range)+

lemma wrap64_add_left: "wrap64 (wrap64 x + y) = wrap64 (x + y)"
proof -
  define M :: int where "M = 2 ^ 63"
  have w: "wrap64 z = (z + M) mod (2 * M) - M" for z
    by (simp add: wrap64_def M_def)
  have "(wrap64 x + y + M) mod (2 * M) = ((x + M) mod (2 * M) + y) mod (2 * M)"
    by (simp add: w)
  also have "\<dots> = (x + M + y) mod (2 * M)"
    by (rule mod_add_left_eq)
  also have "x + M + y = x + y + M"
    by simp
  finally show ?thesis
    by (simp only: w)
qed

lemma Atoi_range: "Atoi s = Some v \<Longrightarrow> - (2 ^ 63) \<le> v \<and> v < 2 ^ 63"
  by (auto simp: Atoi_def Let_def split: list.splits if_splits option.splits prod.splits)

lemma write_data_lines:
  "sessions (fold (\<lambda>line. onWriter w (Write (f line))) ls t) = sessions t"
  "sessionAt (fold (\<lambda>line. onWriter w (Write (f line))) ls t) = sessionAt t"
  "senderAt (fold (\<lambda>line. onWriter w (Write (f line))) ls t) = senderAt t"
  "nextAddr (fold (\<lambda>line. onWriter w (Write (f line))) ls t) = nextAddr t"
  "Body (writerAt (fold (\<lambda>line. onWriter w (Write (f line))) ls t) w) =
     Body (writerAt t w) @ map f ls"
  "w' \<noteq> w \<Longrightarrow> writerAt (fold (\<lambda>line. onWriter w (Write (f line))) ls t) w' = writerAt t w'"
  by (induction ls arbitrary: t) (simp_all add: onWriter_def Write_def WriteHeader_def)

lemma id_lines_simps [simp]:
  "id_lines [] = []"
  "id_lines (chunk # body) =
     (if take 4 chunk = ''id: '' then chunk # id_lines body else id_lines body)"
  "id_lines (xs @ ys) = id_lines xs @ id_lines ys"
  by (simp_all add: id_lines_def)

lemma id_lines_map_others [simp]:
  "(\<And>x. take 4 (f x) \<noteq> ''id: '') \<Longrightarrow> id_lines (map f ls) = []"
  by (induction ls) simp_all

lemma sendEvent_failed:
  "closed (sessionAt t s) \<or> (\<exists>err. Marshal J data' = Inl err) \<Longrightarrow>
   \<exists>err. sendEvent J s eventType data' t = (Some err, t)"
  by (auto simp: sendEvent_def)

lemma sendEvent_sent:
  assumes "\<not> closed (sessionAt t s)" and "Marshal J data' = Inr b"
  shows "fst (sendEvent J s eventType data' t) = None"
    and "sessions (snd (sendEvent J s eventType data' t)) = sessions t"
    and "nextAddr (snd (sendEvent J s eventType data' t)) = nextAddr t"
    and "sessionAt (snd (sendEvent J s eventType data' t)) =
         (sessionAt t)(s := (sessionAt t s)\<lparr> eventID := wrap64 (eventID (sessionAt t s) + 1) \<rparr>)"
    and "id_lines (Body (writerAt (snd (sendEvent J s eventType data' t)) (writer (sessionAt t s)))) =
         id_lines (Body (writerAt t (writer (sessionAt t s)))) @
         [''id: '' @ itoa (eventID (sessionAt t s)) @ NL]"
  using assms
  by (simp_all add: sendEvent_def Let_def write_data_lines onWriter_def Write_def WriteHeader_def
      Flush_def)


lemma sendEvent_cases:
  obtains (failed) err where "sendEvent J s eventType data' t = (Some err, t)"
  | (sent) t1 where "sendEvent J s eventType data' t = (None, t1)"
      and "sessions t1 = sessions t" and "nextAddr t1 = nextAddr t"
      and "sessionAt t1 =
         (sessionAt t)(s := (sessionAt t s)\<lparr> eventID := wrap64 (eventID (sessionAt t s) + 1) \<rparr>)"
      and "id_lines (Body (writerAt t1 (writer (sessionAt t s)))) =
         id_lines (Body (writerAt t (writer (sessionAt t s)))) @
         [''id: '' @ itoa (eventID (sessionAt t s)) @ NL]"
proof (cases "closed (sessionAt t s) \<or> (\<exists>err. Marshal J data' = Inl err)")
  case True
  from sendEvent_failed [OF this] show ?thesis
    using failed by blast
next
  case False
  then obtain b where o: "\<not> closed (sessionAt t s)" and m: "Marshal J data' = Inr b"
    by (cases "Marshal J data'") auto
  show ?thesis
  proof (rule sent)
    show "sendEvent J s eventType data' t = (None, snd (sendEvent J s eventType data' t))"
      using sendEvent_sent(1) [OF o m, of eventType] by (simp add: prod_eq_iff)
  qed (simp_all only: sendEvent_sent [OF o m])
qed

lemma sendEvents_ids:
  assumes "sendEvents J s calls t = (errs, t')"
    and "wrap64 (eventID (sessionAt t s)) = eventID (sessionAt t s)"
  shows "id_lines (Body (writerAt t' (writer (sessionAt t s)))) =
           id_lines (Body (writerAt t (writer (sessionAt t s)))) @
           map (\<lambda>k. ''id: '' @ itoa (wrap64 (eventID (sessionAt t s) + int k)) @ NL)
             [0..<length (filter (\<lambda>err. err = None) errs)]"
  using assms
proof (induction calls arbitrary: t errs)
  case Nil
  then show ?case by simp
next
  case (Cons call calls)
  obtain eventType data' where call: "call = (eventType, data')"
    by (cases call)
  show ?case
  proof (cases rule: sendEvent_cases [of J s eventType data' t])
    case (failed err)
    with Cons.prems call obtain errs' where
      rest: "sendEvents J s calls t = (errs', t')" and errs: "errs = Some err # errs'"
      by (auto split: prod.splits)
    from Cons.IH [OF rest Cons.prems(2)] errs show ?thesis
      by simp
  next
    case (sent t1)
    let ?e = "eventID (sessionAt t s)"
    from Cons.prems call sent(1) obtain errs' where
      rest: "sendEvents J s calls t1 = (errs', t')" and errs: "errs = None # errs'"
      by (auto split: prod.splits)
    have e1: "eventID (sessionAt t1 s) = wrap64 (?e + 1)"
      and w1: "writer (sessionAt t1 s) = writer (sessionAt t s)"
      by (simp_all add: sent(4))
    have "wrap64 (eventID (sessionAt t1 s)) = eventID (sessionAt t1 s)"
      by (simp add: e1)
    from Cons.IH [OF rest this]
    have "id_lines (Body (writerAt t' (writer (sessionAt t s)))) =
           id_lines (Body (writerAt t (writer (sessionAt t s)))) @
           (''id: '' @ itoa ?e @ NL) #
           map (\<lambda>k. ''id: '' @ itoa (wrap64 (wrap64 (?e + 1) + int k)) @ NL)
             [0..<length (filter (\<lambda>err. err = None) errs')]"
      by (simp add: e1 w1 sent(5))
    also have "(\<lambda>k. ''id: '' @ itoa (wrap64 (wrap64 (?e + 1) + int k)) @ NL) =
               (\<lambda>k. ''id: '' @ itoa (wrap64 (?e + int (Suc k))) @ NL)"
    proof -
      have "wrap64 (wrap64 (?e + 1) + int k) = wrap64 (?e + int (Suc k))" for k
        using wrap64_add_left [of "?e + 1" "int k"] by (simp add: ac_simps)
      then show ?thesis by (simp only:)
    qed
    also have "(''id: '' @ itoa ?e @ NL) #
           map (\<lambda>k. ''id: '' @ itoa (wrap64 (?e + int (Suc k))) @ NL)
             [0..<length (filter (\<lambda>err. err = None) errs')] =
           map (\<lambda>k. ''id: '' @ itoa (wrap64 (?e + int k)) @ NL)
             [0..<length (filter (\<lambda>err. err = None) errs)]"
      using Cons.prems(2) by (simp add: errs map_upt_Suc del: upt_Suc)
    finally show ?thesis .
  qed
qed


lemma Atoi_Nil [simp]: "Atoi [] = None"
  by (simp add: Atoi_def)

lemma startSSEStream_no_flusher:
  "\<not> isFlusher (writerAt t w) \<Longrightarrow> fst (startSSEStream J clk w r t) = None"
  by (simp add: startSSEStream_def)

lemma startSSEStream_opened:
  assumes "isFlusher (writerAt t w)"
  shows "\<exists>t7 sid.
      startSSEStream J clk w r t =
        (Some (nextAddr t),
         snd (sendEvent J (nextAddr t) ''connected''
                (WStringMap [(''sessionId'', sid), (''timestamp'', rfc3339 clk)]) t7)) \<and>
      sid = (if McpSessionId r = [] then ''session_'' @ itoa (unixNano clk) else McpSessionId r) \<and>
      sessionAt t7 (nextAddr t) =
        \<lparr> sessID = sid, writer = w,
          eventID = (case Atoi (LastEventID r) of None \<Rightarrow> 0 | Some n \<Rightarrow> wrap64 (n + 1)),
          closed = False \<rparr> \<and>
      map_of (sessions t7) sid = Some (nextAddr t) \<and>
      Body (writerAt t7 w) = Body (writerAt t w)"
proof -
  define sid where
    "sid = (if McpSessionId r = [] then ''session_'' @ itoa (unixNano clk) else McpSessionId r)"
  define e where "e = (case Atoi (LastEventID r) of None \<Rightarrow> 0 | Some n \<Rightarrow> wrap64 (n + 1))"
  define t4 where
    "t4 = onWriter w (Header_Set ''Access-Control-Allow-Origin'' ''*'')
            (onWriter w (Header_Set ''Connection'' ''keep-alive'')
               (onWriter w (Header_Set ''Cache-Control'' ''no-cache'')
                  (onWriter w (Header_Set ''Content-Type'' contentTypeSSE) t)))"
  define t7 where
    "t7 = onWriter w (Header_Set headerMCPSessionID sid)
            (t4\<lparr> sessionAt := (sessionAt t4)
                    (nextAddr t := \<lparr> sessID = sid, writer = w, eventID = e, closed = False \<rparr>),
                  nextAddr := Suc (nextAddr t),
                  sessions := AList.update sid (nextAddr t) (sessions t4) \<rparr>)"
  have e': "e = (if LastEventID r \<noteq> [] then
                   (case Atoi (LastEventID r) of Some id' \<Rightarrow> wrap64 (id' + 1) | None \<Rightarrow> 0)
                 else 0)"
    by (cases "LastEventID r = []") (simp_all add: e_def split: option.splits)
  have n4: "nextAddr t4 = nextAddr t"
    by (simp add: t4_def onWriter_def)
  have "startSSEStream J clk w r t =
        (Some (nextAddr t),
         snd (sendEvent J (nextAddr t) ''connected''
                (WStringMap [(''sessionId'', sid), (''timestamp'', rfc3339 clk)]) t7))"
    unfolding startSSEStream_def Let_def e' [symmetric] t4_def [symmetric]
    using assms by (simp add: t7_def n4 sid_def sessionIDPrefix_def)
  moreover have "sessionAt t7 (nextAddr t) =
        \<lparr> sessID = sid, writer = w, eventID = e, closed = False \<rparr>"
    and "map_of (sessions t7) sid = Some (nextAddr t)"
    and "Body (writerAt t7 w) = Body (writerAt t w)"
    by (simp_all add: t7_def t4_def onWriter_def Header_Set_def update_conv')
  ultimately show ?thesis
    unfolding sid_def e_def by blast
qed


text \<open>
  Claim C4, amended. Opening a session emits the "connected" event with the first id,
  and every later \<open>sendEvent\<close> that succeeds, named or not, emits the next one: the
  \<open>k\<close>-th event emitted on the session carries the id \<open>start + k\<close> in 64-bit
  two's-complement arithmetic, and a send that fails emits nothing and uses up no id.
  \<open>start\<close> is 0 when the \<open>Last-Event-ID\<close> header is absent or does not parse, and
  \<open>Last-Event-ID + 1\<close> in 64-bit arithmetic when it parses: that is \<open>Last-Event-ID + 1\<close>
  for every value below \<open>2^63 - 1\<close>. As long as the ids stay below \<open>2^63\<close> nothing wraps,
  so they increase strictly, by exactly 1 per emitted event.
\<close>

theorem C4_event_ids_count_up:
  assumes "startSSEStream J clk w r t = (Some s, t1)"
    and "sendEvents J s calls t1 = (errs, t2)"
  shows "\<exists>start.
      id_lines (Body (writerAt t2 w)) =
        id_lines (Body (writerAt t w)) @
        map (\<lambda>k. ''id: '' @ itoa (wrap64 (start + int k)) @ NL)
          [0..<Suc (length (filter (\<lambda>err. err = None) errs))] \<and>
      (Atoi (LastEventID r) = None \<longrightarrow> start = 0) \<and>
      (\<forall>n. Atoi (LastEventID r) = Some n \<longrightarrow>
         start = wrap64 (n + 1) \<and> (n < 2 ^ 63 - 1 \<longrightarrow> start = n + 1)) \<and>
      (start + int (length (filter (\<lambda>err. err = None) errs)) < 2 ^ 63 \<longrightarrow>
         (\<forall>k \<le> length (filter (\<lambda>err. err = None) errs). wrap64 (start + int k) = start + int k))"
proof -
  define start where
    "start = (case Atoi (LastEventID r) of None \<Rightarrow> 0 | Some n \<Rightarrow> wrap64 (n + 1))"
  let ?n = "length (filter (\<lambda>err. err = None) errs)"
  from assms(1) have fl: "isFlusher (writerAt t w)"
    using startSSEStream_no_flusher [of t w J clk r] by (cases "isFlusher (writerAt t w)") auto
  from startSSEStream_opened [OF fl, of J clk r]
  obtain t7 where "\<exists>sid.
      startSSEStream J clk w r t =
        (Some (nextAddr t),
         snd (sendEvent J (nextAddr t) ''connected''
                (WStringMap [(''sessionId'', sid), (''timestamp'', rfc3339 clk)]) t7)) \<and>
      sid = (if McpSessionId r = [] then ''session_'' @ itoa (unixNano clk) else McpSessionId r) \<and>
      sessionAt t7 (nextAddr t) =
        \<lparr> sessID = sid, writer = w,
          eventID = (case Atoi (LastEventID r) of None \<Rightarrow> 0 | Some n \<Rightarrow> wrap64 (n + 1)),
          closed = False \<rparr> \<and>
      map_of (sessions t7) sid = Some (nextAddr t) \<and>
      Body (writerAt t7 w) = Body (writerAt t w)" ..
  then obtain sid where opened:
     "startSSEStream J clk w r t =
        (Some (nextAddr t),
         snd (sendEvent J (nextAddr t) ''connected''
                (WStringMap [(''sessionId'', sid), (''timestamp'', rfc3339 clk)]) t7)) \<and>
      sid = (if McpSessionId r = [] then ''session_'' @ itoa (unixNano clk) else McpSessionId r) \<and>
      sessionAt t7 (nextAddr t) =
        \<lparr> sessID = sid, writer = w,
          eventID = (case Atoi (LastEventID r) of None \<Rightarrow> 0 | Some n \<Rightarrow> wrap64 (n + 1)),
          closed = False \<rparr> \<and>
      map_of (sessions t7) sid = Some (nextAddr t) \<and>
      Body (writerAt t7 w) = Body (writerAt t w)" ..
  from opened assms(1) have s: "s = nextAddr t"
    and t1: "t1 = snd (sendEvent J s ''connected''
                (WStringMap [(''sessionId'', sid), (''timestamp'', rfc3339 clk)]) t7)"
    by simp_all
  from opened have s7: "sessionAt t7 s = \<lparr> sessID = sid, writer = w, eventID = start, closed = False \<rparr>"
    and b7: "Body (writerAt t7 w) = Body (writerAt t w)"
    by (simp_all add: s start_def)
  have lo: "- (2 ^ 63) \<le> start" and hi: "start < 2 ^ 63"
    using wrap64_range by (auto simp: start_def split: option.splits)
  have m: "Marshal J (WStringMap [(''sessionId'', sid), (''timestamp'', rfc3339 clk)]) =
      Inr (encode J (WStringMap [(''sessionId'', sid), (''timestamp'', rfc3339 clk)]))"
    by (simp add: Marshal_def)
  have o: "\<not> closed (sessionAt t7 s)"
    by (simp add: s7)
  have "fst (sendEvent J s ''connected''
          (WStringMap [(''sessionId'', sid), (''timestamp'', rfc3339 clk)]) t7) = None"
    by (rule sendEvent_sent(1) [OF o m])
  with t1 assms(2)
  have all: "sendEvents J s
      ((''connected'', WStringMap [(''sessionId'', sid), (''timestamp'', rfc3339 clk)]) # calls) t7 =
      (None # errs, t2)"
    by (simp add: prod_eq_iff split: prod.splits)
  have "wrap64 (eventID (sessionAt t7 s)) = eventID (sessionAt t7 s)"
    using lo hi by (simp add: s7 wrap64_in_range)
  from sendEvents_ids [OF all this]
  have ids: "id_lines (Body (writerAt t2 w)) =
        id_lines (Body (writerAt t w)) @
        map (\<lambda>k. ''id: '' @ itoa (wrap64 (start + int k)) @ NL) [0..<Suc ?n]"
    by (simp add: s7 b7)
  have none: "Atoi (LastEventID r) = None \<longrightarrow> start = 0"
    by (simp add: start_def)
  have some: "\<forall>n. Atoi (LastEventID r) = Some n \<longrightarrow>
         start = wrap64 (n + 1) \<and> (n < 2 ^ 63 - 1 \<longrightarrow> start = n + 1)"
  proof (intro allI impI conjI)
    fix n
    assume a: "Atoi (LastEventID r) = Some n"
    then show "start = wrap64 (n + 1)"
      by (simp add: start_def)
    assume "n < 2 ^ 63 - 1"
    with Atoi_range [OF a] have "wrap64 (n + 1) = n + 1"
      by (intro wrap64_in_range) simp_all
    with a show "start = n + 1"
      by (simp add: start_def)
  qed
  have nowrap: "start + int ?n < 2 ^ 63 \<longrightarrow> (\<forall>k \<le> ?n. wrap64 (start + int k) = start + int k)"
  proof (intro allI impI)
    fix k
    assume "start + int ?n < 2 ^ 63" and "k \<le> ?n"
    with lo show "wrap64 (start + int k) = start + int k"
      by (intro wrap64_in_range) simp_all
  qed
  show ?thesis
    by (rule exI [of _ start]) (intro conjI ids none some nowrap)
qed


lemma startSSEStream_first_id:
  assumes "isFlusher (writerAt t w)"
  shows "id_lines (Body (writerAt (snd (startSSEStream J clk w r t)) w)) =
         id_lines (Body (writerAt t w)) @
         [''id: '' @ itoa (case Atoi (LastEventID r) of None \<Rightarrow> 0 | Some n \<Rightarrow> wrap64 (n + 1)) @ NL]"
proof -
  from startSSEStream_opened [OF assms, of J clk r]
  obtain t7 sid where
    eq: "startSSEStream J clk w r t =
        (Some (nextAddr t),
         snd (sendEvent J (nextAddr t) ''connected''
                (WStringMap [(''sessionId'', sid), (''timestamp'', rfc3339 clk)]) t7))"
    and s7: "sessionAt t7 (nextAddr t) =
        \<lparr> sessID = sid, writer = w,
          eventID = (case Atoi (LastEventID r) of None \<Rightarrow> 0 | Some n \<Rightarrow> wrap64 (n + 1)),
          closed = False \<rparr>"
    and b7: "Body (writerAt t7 w) = Body (writerAt t w)"
    by (elim exE conjE) blast
  have m: "Marshal J (WStringMap [(''sessionId'', sid), (''timestamp'', rfc3339 clk)]) =
      Inr (encode J (WStringMap [(''sessionId'', sid), (''timestamp'', rfc3339 clk)]))"
    by (simp add: Marshal_def)
  have o: "\<not> closed (sessionAt t7 (nextAddr t))"
    by (simp add: s7)
  from sendEvent_sent(5) [OF o m, of "''connected''"] show ?thesis
    by (simp add: eq s7 b7)
qed

text \<open>
  Claim C4 as stated fails for \<open>Last-Event-ID: 9223372036854775807\<close>: the header
  parses, and the first id emitted is \<open>-9223372036854775808\<close>, not
  \<open>9223372036854775808\<close>.
\<close>

theorem C4_last_event_id_overflow_counterexample:
  "Atoi ''9223372036854775807'' = Some 9223372036854775807
   \<and> id_lines (Body (writerAt (snd (startSSEStream example_codec example_clock 0
         (example_get ''9223372036854775807'' ''abc'') example_transport)) 0)) =
       [''id: -9223372036854775808'' @ NL]"
proof -
  have a: "Atoi ''9223372036854775807'' = Some 9223372036854775807"
    by (simp add: Atoi_def digit_of_def)
  have i: "itoa (wrap64 9223372036854775808) = ''-9223372036854775808''"
    by (simp add: itoa_def wrap64_def digits.simps)
  have f: "isFlusher (writerAt example_transport 0)" and b: "Body (writerAt example_transport 0) = []"
    by (simp_all add: example_transport_def example_writer_def)
  from startSSEStream_first_id [OF f, of example_codec example_clock
      "example_get ''9223372036854775807'' ''abc''"]
  have "id_lines (Body (writerAt (snd (startSSEStream example_codec example_clock 0
         (example_get ''9223372036854775807'' ''abc'') example_transport)) 0)) =
       [''id: -9223372036854775808'' @ NL]"
    by (simp add: b example_get_def a i)
  with a show ?thesis
    by (rule conjI)
qed


lemma sendEvent_keeps:
  "sessions (snd (sendEvent J s eventType data' t)) = sessions t"
  "closed (sessionAt (snd (sendEvent J s eventType data' t)) p) = closed (sessionAt t p)"
  "writer (sessionAt (snd (sendEvent J s eventType data' t)) p) = writer (sessionAt t p)"
  by (cases rule: sendEvent_cases [of J s eventType data' t]; simp)+

lemma sendEvents_all_sent:
  assumes "\<not> closed (sessionAt t s)"
    and "\<forall>(eventType, data') \<in> set calls. \<exists>b. Marshal J data' = Inr b"
  shows "fst (sendEvents J s calls t) = replicate (length calls) None"
  using assms
proof (induction calls arbitrary: t)
  case Nil
  then show ?case by simp
next
  case (Cons call calls)
  obtain eventType data' where call: "call = (eventType, data')"
    by (cases call)
  with Cons.prems obtain b where m: "Marshal J data' = Inr b"
    by auto
  have 1: "fst (sendEvent J s eventType data' t) = None"
    by (rule sendEvent_sent(1) [OF Cons.prems(1) m])
  have "\<not> closed (sessionAt (snd (sendEvent J s eventType data' t)) s)"
    using Cons.prems(1) by (simp add: sendEvent_keeps)
  from Cons.IH [OF this] Cons.prems(2)
  have "fst (sendEvents J s calls (snd (sendEvent J s eventType data' t))) =
        replicate (length calls) None"
    by simp
  with 1 show ?case
    by (auto simp: call split: prod.splits)
qed

text \<open>
  C4 on a session resumed with \<open>Last-Event-ID: 41\<close>, followed by a named and an unnamed
  event: the ids are 42, 43 and 44.
\<close>

theorem C4_event_ids_witness:
  "id_lines (Body (writerAt
       (snd (sendEvents example_codec 0
               [(''message'', WResponse example_pong), ([], WResponse example_pong)]
               (snd (startSSEStream example_codec example_clock 0 (example_get ''41'' ''abc'')
                       example_transport)))) 0)) =
     [''id: 42'' @ NL, ''id: 43'' @ NL, ''id: 44'' @ NL]"
proof -
  let ?calls = "[(''message'', WResponse example_pong), ([], WResponse example_pong)]"
  let ?open = "startSSEStream example_codec example_clock 0 (example_get ''41'' ''abc'')
                 example_transport"
  have f: "isFlusher (writerAt example_transport 0)" and b: "Body (writerAt example_transport 0) = []"
    and n: "nextAddr example_transport = 0"
    by (simp_all add: example_transport_def example_writer_def)
  have a: "Atoi (LastEventID (example_get ''41'' ''abc'')) = Some 41"
    by (simp add: example_get_def Atoi_def digit_of_def)
  from startSSEStream_opened [OF f, of example_codec example_clock "example_get ''41'' ''abc''"]
  obtain t7 sid where
    eq: "?open = (Some 0, snd (sendEvent example_codec 0 ''connected''
                (WStringMap [(''sessionId'', sid), (''timestamp'', rfc3339 example_clock)]) t7))"
    and s7: "\<not> closed (sessionAt t7 0)"
    by (elim exE conjE) (simp add: n)
  have opened: "?open = (Some 0, snd ?open)"
    by (simp add: eq)
  have "\<not> closed (sessionAt (snd ?open) 0)"
    using s7 by (simp add: eq sendEvent_keeps)
  from sendEvents_all_sent [OF this, of ?calls example_codec]
  have "fst (sendEvents example_codec 0 ?calls (snd ?open)) = [None, None]"
    by (simp add: example_encode_pong)
  then have sent: "sendEvents example_codec 0 ?calls (snd ?open) =
      ([None, None], snd (sendEvents example_codec 0 ?calls (snd ?open)))"
    by (simp add: prod_eq_iff)
  from C4_event_ids_count_up [OF opened sent]
  obtain start where c:
    "id_lines (Body (writerAt (snd (sendEvents example_codec 0 ?calls (snd ?open))) 0)) =
        id_lines (Body (writerAt example_transport 0)) @
        map (\<lambda>k. ''id: '' @ itoa (wrap64 (start + int k)) @ NL)
          [0..<Suc (length (filter (\<lambda>err. err = None) ([None, None] :: string option list)))] \<and>
      (Atoi (LastEventID (example_get ''41'' ''abc'')) = None \<longrightarrow> start = 0) \<and>
      (\<forall>n. Atoi (LastEventID (example_get ''41'' ''abc'')) = Some n \<longrightarrow>
         start = wrap64 (n + 1) \<and> (n < 2 ^ 63 - 1 \<longrightarrow> start = n + 1)) \<and>
      (start + int (length (filter (\<lambda>err. err = None) ([None, None] :: string option list))) < 2 ^ 63 \<longrightarrow>
         (\<forall>k \<le> length (filter (\<lambda>err. err = None) ([None, None] :: string option list)).
            wrap64 (start + int k) = start + int k))" ..
  from c a have start: "start = 42"
    by simp
  from c have "id_lines (Body (writerAt (snd (sendEvents example_codec 0 ?calls (snd ?open))) 0)) =
        map (\<lambda>k. ''id: '' @ itoa (wrap64 (42 + int k)) @ NL) [0..<3]"
    unfolding start by (simp add: b numeral_3_eq_3)
  also have "\<dots> = [''id: 42'' @ NL, ''id: 43'' @ NL, ''id: 44'' @ NL]"
    by (simp add: upt_rec itoa_def wrap64_def digits.simps)
  finally show ?thesis .
qed

subsection \<open>Sessions opened by a POST\<close>

lemma HandleRequest_on_session:
  "\<exists>x h'. HandleRequest srv (Sender (SSEResponseSender_at J s)) req (h, t) =
     sending (sendEvent J s [] (WResponse x)) h' t"
proof -
  have "one_reply (ID req)
      (\<lambda>(rs :: ('a, HTTPTransport) ResponseSender) t. HandleRequest srv (Sender rs) req (h, t))"
    by (rule HandleRequest_reply)
  then consider
    (response) h' x where
      "\<forall>(rs :: ('a, HTTPTransport) ResponseSender) t.
         HandleRequest srv (Sender rs) req (h, t) = sending (SendResponse rs x) h' t"
  | (error) h' c m d where
      "\<forall>(rs :: ('a, HTTPTransport) ResponseSender) t.
         HandleRequest srv (Sender rs) req (h, t) = sending (SendError rs (ID req) c m d) h' t"
    unfolding one_reply_def by blast
  then show ?thesis
  proof cases
    case response
    then have "HandleRequest srv (Sender (SSEResponseSender_at J s)) req (h, t) =
        sending (sendEvent J s [] (WResponse x)) h' t"
      by (simp add: SSEResponseSender_at_def sending_def)
    then show ?thesis by blast
  next
    case error
    then have "HandleRequest srv (Sender (SSEResponseSender_at J s)) req (h, t) =
        sending (sendEvent J s []
          (WResponse \<lparr> respJSONRPC = JSONRPCVersion, respID = ID req, Result = None,
                       Error = Some \<lparr> Code = c, Message = m, Data = d \<rparr> \<rparr>)) h' t"
      by (simp add: SSEResponseSender_at_def SSESession_sendError_def sending_def)
    then show ?thesis by blast
  qed
qed

lemma handleSSERequest_keeps_session:
  assumes "isFlusher (writerAt t w)"
  shows "map_of (sessions (snd (handleSSERequest J srv clk w r req (h, t))))
           (if McpSessionId r = [] then ''session_'' @ itoa (unixNano clk) else McpSessionId r) =
         Some (nextAddr t)"
    and "\<not> closed (sessionAt (snd (handleSSERequest J srv clk w r req (h, t))) (nextAddr t))"
proof -
  from startSSEStream_opened [OF assms, of J clk r]
  obtain t7 sid where
    eq: "startSSEStream J clk w r t =
        (Some (nextAddr t),
         snd (sendEvent J (nextAddr t) ''connected''
                (WStringMap [(''sessionId'', sid), (''timestamp'', rfc3339 clk)]) t7))"
    and sid: "sid = (if McpSessionId r = [] then ''session_'' @ itoa (unixNano clk)
                     else McpSessionId r)"
    and s7: "sessionAt t7 (nextAddr t) =
        \<lparr> sessID = sid, writer = w,
          eventID = (case Atoi (LastEventID r) of None \<Rightarrow> 0 | Some n \<Rightarrow> wrap64 (n + 1)),
          closed = False \<rparr>"
    and r7: "map_of (sessions t7) sid = Some (nextAddr t)"
    by (elim exE conjE) blast
  let ?s = "nextAddr t"
  let ?t1 = "snd (sendEvent J ?s ''connected''
                (WStringMap [(''sessionId'', sid), (''timestamp'', rfc3339 clk)]) t7)"
  have o7: "\<not> closed (sessionAt t7 ?s)"
    by (simp add: s7)
  have r1: "map_of (sessions ?t1) sid = Some ?s" and o1: "\<not> closed (sessionAt ?t1 ?s)"
    unfolding sendEvent_keeps by (rule r7, rule o7)
  from HandleRequest_on_session [of srv J ?s req h ?t1]
  obtain x h' where
    run: "HandleRequest srv (Sender (SSEResponseSender_at J ?s)) req (h, ?t1) =
     sending (sendEvent J ?s [] (WResponse x)) h' ?t1"
    by blast
  let ?t2 = "snd (sendEvent J ?s [] (WResponse x) ?t1)"
  have r2: "map_of (sessions ?t2) sid = Some ?s" and o2: "\<not> closed (sessionAt ?t2 ?s)"
    unfolding sendEvent_keeps by (rule r7, rule o7)
  have "snd (handleSSERequest J srv clk w r req (h, t)) = ?t2 \<or>
        (\<exists>e. snd (handleSSERequest J srv clk w r req (h, t)) =
           snd (SSESession_sendError J ?s (ID req) ErrorCodeInternalError ''Internal error''
                  (JStr e) ?t2))"
    by (cases "fst (sendEvent J ?s [] (WResponse x) ?t1)")
      (auto simp: handleSSERequest_def eq run sending_def split: prod.splits)
  then show "map_of (sessions (snd (handleSSERequest J srv clk w r req (h, t))))
           (if McpSessionId r = [] then ''session_'' @ itoa (unixNano clk) else McpSessionId r) =
         Some (nextAddr t)"
    and "\<not> closed (sessionAt (snd (handleSSERequest J srv clk w r req (h, t))) (nextAddr t))"
    using r2 o2 by (auto simp: SSESession_sendError_def sendEvent_keeps sid)
qed

lemma handleGet_done_removes:
  "map_of (sessions (handleGet_done s t)) (sessID (sessionAt t s)) = None"
  "sessionAt (handleGet_done s t) = sessionAt t"
  by (simp_all add: handleGet_done_def delete_conv')

lemma example_decode_ping:
  "Decode_Request example_codec example_line_ping =
     Inr \<lparr> JSONRPC = ''2.0'', Method = ''ping'', ID = JNum 7, Params = JNull \<rparr>"
  by (simp add: example_codec_def example_requests_def example_line_ping_def)

text \<open>
  Claim C8 does not hold of the code. A POST that is answered over an event stream
  registers a session, and \<open>handleSSERequest\<close> returns without removing it: when the
  handler has returned, and the connection with it, the session \<open>abc\<close> is still in the
  registry and not marked closed, and a \<open>sendEvent\<close> on it still reports success. Only
  \<open>handleGet\<close> removes its session, and only \<open>Stop\<close> marks sessions closed.
\<close>

theorem C8_sse_post_session_stays_registered:
  "map_of (sessions (snd (handlePost example_codec example_server example_clock 0 example_sse_post
       (0, example_transport)))) ''abc'' = Some 0
   \<and> \<not> closed (sessionAt (snd (handlePost example_codec example_server example_clock 0
         example_sse_post (0, example_transport))) 0)
   \<and> fst (sendEvent example_codec 0 [] (WResponse example_pong)
         (snd (handlePost example_codec example_server example_clock 0 example_sse_post
                (0, example_transport)))) = None"
proof -
  let ?req = "\<lparr> JSONRPC = ''2.0'', Method = ''ping'', ID = JNum 7, Params = JNull \<rparr>"
  have post: "handlePost example_codec example_server example_clock 0 example_sse_post
       (0, example_transport) =
     handleSSERequest example_codec example_server example_clock 0 example_sse_post ?req
       (0, example_transport)"
    by (simp add: handlePost_def example_sse_post_def example_decode_ping JSONRPCVersion_def)
  have f: "isFlusher (writerAt example_transport 0)" and n: "nextAddr example_transport = 0"
    by (simp_all add: example_transport_def example_writer_def)
  have m: "McpSessionId example_sse_post = ''abc''"
    by (simp add: example_sse_post_def)
  from handleSSERequest_keeps_session [OF f, of example_codec example_server example_clock
      example_sse_post ?req 0]
  have reg: "map_of (sessions (snd (handlePost example_codec example_server example_clock 0
         example_sse_post (0, example_transport)))) ''abc'' = Some 0"
    and opn: "\<not> closed (sessionAt (snd (handlePost example_codec example_server example_clock 0
         example_sse_post (0, example_transport))) 0)"
    by (simp_all add: post n m)
  from sendEvent_sent(1) [OF opn example_encode_pong]
  have "fst (sendEvent example_codec 0 [] (WResponse example_pong)
         (snd (handlePost example_codec example_server example_clock 0 example_sse_post
                (0, example_transport)))) = None" .
  with reg opn show ?thesis
    by (intro conjI)
qed

end
